theory Spec2Isabelle
  imports Complex_Main "HOL-Library.Word" "HOL-Library.Log_Nat"
begin

unbundle bit_operations_syntax

section \<open>Values of the Python program\<close>

text \<open>
  A Python \<open>bytes\<close> object is a list of 8-bit words, a Python \<open>int\<close> is an
  \<open>int\<close> (unbounded), a Python \<open>str\<close> is the list of its code points.
\<close>

type_synonym byte = "8 word"
type_synonym pystr = "nat list"

text \<open>
  A Python \<open>float\<close> is a binary64 value. It is kept by its exact mathematical value;
  the values that have none (negative zero, the infinities, NaN) are constructors of
  their own. \<open>Infinity True\<close> is the negative one.
\<close>

datatype pyfloat = Finite rat | NegZero | Infinity bool | NaN

text \<open>
  The exceptions the three source files can raise. The parameters \<open>size\<close> and
  \<open>signed\<close> of the readers are written \<open>sz\<close> and \<open>signd\<close>.
\<close>

datatype error =
    UnicodeDecodeError          \<comment> \<open>\<open>bytes.decode("utf-8")\<close> on invalid UTF-8\<close>
  | StructError                 \<comment> \<open>\<open>struct.unpack('<f', data)\<close> when \<open>len(data) \<noteq> 4\<close>\<close>
  | OverflowError               \<comment> \<open>\<open>float(value)\<close> on an int too large for a binary64\<close>
  | ValueError int              \<comment> \<open>\<open>ValueError(f"Unknown session type: {n}")\<close>\<close>

section \<open>The byte stream\<close>

text \<open>
  \<open>BytesIO\<close>, and the opened replay file: a buffer and a read position.
  \<open>read(n)\<close> returns at most \<open>n\<close> bytes, fewer when the buffer ends before, and none
  at or past the end; the position advances by the number of bytes returned.
  A negative \<open>n\<close> reads everything that remains. It never raises.
\<close>

record bytesio =
  buf :: "byte list"
  pos :: nat

definition BytesIO :: "byte list \<Rightarrow> bytesio" where
  "BytesIO bs = \<lparr>buf = bs, pos = 0\<rparr>"

definition remaining :: "bytesio \<Rightarrow> byte list" where
  "remaining f = drop (pos f) (buf f)"

definition read_raw :: "int \<Rightarrow> bytesio \<Rightarrow> byte list \<times> bytesio" where
  "read_raw n f =
     (let bs = (if n < 0 then remaining f else take (nat n) (remaining f))
      in (bs, f\<lparr>pos := pos f + length bs\<rparr>))"

definition seek :: "int \<Rightarrow> bytesio \<Rightarrow> bytesio" where
  "seek p f = f\<lparr>pos := nat p\<rparr>"

text \<open>
  A computation on a stream returns a value or raises, and leaves the stream as far as
  it has read: an exception does not undo the reads before it.
\<close>

type_synonym 'a reader = "bytesio \<Rightarrow> (error + 'a) \<times> bytesio"

definition return :: "'a \<Rightarrow> 'a reader" where
  "return a f = (Inr a, f)"

definition raise :: "error \<Rightarrow> 'a reader" where
  "raise e f = (Inl e, f)"

definition bind :: "'a reader \<Rightarrow> ('a \<Rightarrow> 'b reader) \<Rightarrow> 'b reader" where
  "bind m k f = (case m f of (Inl e, f') \<Rightarrow> (Inl e, f') | (Inr a, f') \<Rightarrow> k a f')"

definition read :: "int \<Rightarrow> (byte list) reader" where
  "read n f = (case read_raw n f of (bs, f') \<Rightarrow> (Inr bs, f'))"

section \<open>utils.py\<close>

subsection \<open>Library functions the readers call\<close>

text \<open>\<open>int.from_bytes(data, byteorder="little", signed=signed)\<close>.\<close>

fun le_uint :: "byte list \<Rightarrow> int" where
  "le_uint [] = 0"
| "le_uint (b # bs) = uint b + 256 * le_uint bs"

definition from_bytes :: "byte list \<Rightarrow> bool \<Rightarrow> int" where
  "from_bytes bs signd =
     (let v = le_uint bs
      in if signd \<and> bs \<noteq> [] \<and> 128 \<le> uint (last bs) then v - 2 ^ (8 * length bs) else v)"

text \<open>
  \<open>float(value)\<close> of an int: exact below \<open>2^53\<close>, otherwise rounded to 53 significant
  bits, ties to even; \<open>OverflowError\<close> when the rounded value does not fit a binary64.
\<close>

definition float_of_int :: "int \<Rightarrow> error + pyfloat" where
  "float_of_int v =
     (let a = \<bar>v\<bar> in
      if a < 2 ^ 53 then Inr (Finite (of_int v))
      else
        let e = nat (bitlen a - 53);
            q = a div 2 ^ e;
            r = a mod 2 ^ e;
            q' = (if 2 ^ e < 2 * r \<or> (2 * r = 2 ^ e \<and> odd q) then q + 1 else q);
            m = q' * 2 ^ e
        in if 2 ^ 1024 \<le> m then Inl OverflowError else Inr (Finite (of_int (sgn v * m))))"

text \<open>
  \<open>struct.unpack('<f', data)[0]\<close> on the four bytes whose little-endian integer is
  \<open>w\<close>: bit 31 is the sign, bits 23 to 30 the biased exponent, bits 0 to 22 the
  fraction of an IEEE-754 binary32; the binary64 returned has the same value.
\<close>

definition binary32_value :: "int \<Rightarrow> pyfloat" where
  "binary32_value w =
     (let s = drop_bit 31 w AND 1;
          e = drop_bit 23 w AND 0xFF;
          m = w AND 0x7FFFFF;
          sign = (if s = 1 then - 1 else 1 :: rat)
      in if e = 255 then (if m = 0 then Infinity (s = 1) else NaN)
         else if e = 0 then
           (if m = 0 then (if s = 1 then NegZero else Finite 0)
            else Finite (sign * of_int m / 2 ^ 149))
         else if 150 \<le> e then Finite (sign * of_int ((2 ^ 23 + m) * 2 ^ nat (e - 150)))
         else Finite (sign * of_int (2 ^ 23 + m) / 2 ^ nat (150 - e)))"

definition struct_unpack_f :: "byte list \<Rightarrow> error + pyfloat" where
  "struct_unpack_f bs =
     (if length bs = 4 then Inr (binary32_value (le_uint bs)) else Inl StructError)"

text \<open>
  \<open>raw_bytes.decode("utf-8")\<close>, strict: the shortest encoding only, no surrogates,
  nothing above U+10FFFF. The bytes are given by their values.
\<close>

definition cont :: "nat \<Rightarrow> bool" where
  "cont b = (0x80 \<le> b \<and> b \<le> 0xBF)"

fun utf8 :: "nat list \<Rightarrow> pystr option" where
  "utf8 [] = Some []"
| "utf8 (b0 # bs) =
     (if b0 < 0x80 then map_option ((#) b0) (utf8 bs)
      else if 0xC2 \<le> b0 \<and> b0 \<le> 0xDF then
        (case bs of
           b1 # r \<Rightarrow>
             if cont b1
             then map_option ((#) ((b0 - 0xC0) * 64 + (b1 - 0x80))) (utf8 r)
             else None
         | _ \<Rightarrow> None)
      else if 0xE0 \<le> b0 \<and> b0 \<le> 0xEF then
        (case bs of
           b1 # b2 # r \<Rightarrow>
             if cont b1 \<and> cont b2 \<and> (if b0 = 0xE0 then 0xA0 \<le> b1 else True)
                \<and> (if b0 = 0xED then b1 \<le> 0x9F else True)
             then map_option
                    ((#) ((b0 - 0xE0) * 4096 + (b1 - 0x80) * 64 + (b2 - 0x80))) (utf8 r)
             else None
         | _ \<Rightarrow> None)
      else if 0xF0 \<le> b0 \<and> b0 \<le> 0xF4 then
        (case bs of
           b1 # b2 # b3 # r \<Rightarrow>
             if cont b1 \<and> cont b2 \<and> cont b3
                \<and> (if b0 = 0xF0 then 0x90 \<le> b1 else True)
                \<and> (if b0 = 0xF4 then b1 \<le> 0x8F else True)
             then map_option
                    ((#) ((b0 - 0xF0) * 262144 + (b1 - 0x80) * 4096
                          + (b2 - 0x80) * 64 + (b3 - 0x80))) (utf8 r)
             else None
         | _ \<Rightarrow> None)
      else None)"

definition decode_utf8 :: "byte list \<Rightarrow> error + pystr" where
  "decode_utf8 bs = (case utf8 (map unat bs) of None \<Rightarrow> Inl UnicodeDecodeError | Some s \<Rightarrow> Inr s)"

text \<open>
  \<open>raw_bytes.find(b'\x00')\<close> and the slice \<open>raw_bytes[:index]\<close> when the index is not
  \<open>-1\<close>: the bytes before the first NUL, all of them when there is none.
\<close>

definition find_byte :: "byte \<Rightarrow> byte list \<Rightarrow> int" where
  "find_byte b bs = (if b \<in> set bs then int (length (takeWhile (\<lambda>x. x \<noteq> b) bs)) else - 1)"

definition cut_at_nul :: "byte list \<Rightarrow> byte list" where
  "cut_at_nul raw_bytes =
     (let null_terminator_index = find_byte 0 raw_bytes
      in if null_terminator_index \<noteq> - 1 then take (nat null_terminator_index) raw_bytes
         else raw_bytes)"

subsection \<open>The readers\<close>

definition read_integer :: "int \<Rightarrow> bool \<Rightarrow> int reader" where
  "read_integer sz signd = bind (read sz) (\<lambda>data. return (from_bytes data signd))"

definition read_float :: "int \<Rightarrow> bool \<Rightarrow> pyfloat reader" where
  "read_float sz signd =
     bind (read sz) (\<lambda>data.
       case float_of_int (from_bytes data signd) of
         Inl e \<Rightarrow> raise e
       | Inr x \<Rightarrow> return x)"

definition read_float2 :: "int \<Rightarrow> pyfloat reader" where
  "read_float2 sz =
     bind (read sz) (\<lambda>data.
       case struct_unpack_f data of Inl e \<Rightarrow> raise e | Inr x \<Rightarrow> return x)"

definition read_string :: "int \<Rightarrow> pystr reader" where
  "read_string descriptor_length =
     bind (read descriptor_length) (\<lambda>d.
     bind (read (from_bytes d False)) (\<lambda>raw_bytes.
       case decode_utf8 (cut_at_nul raw_bytes) of Inl e \<Rightarrow> raise e | Inr s \<Rightarrow> return s))"

definition read_bytes :: "int \<Rightarrow> (byte list) reader" where
  "read_bytes sz = read sz"

definition read_bytes_as_string :: "int \<Rightarrow> pystr reader" where
  "read_bytes_as_string sz =
     bind (read sz) (\<lambda>raw_bytes.
       case decode_utf8 (cut_at_nul raw_bytes) of Inl e \<Rightarrow> raise e | Inr s \<Rightarrow> return s)"

section \<open>events.py\<close>

text \<open>
  The dataclass \<open>ReplayEvent\<close> and its subclasses, as a record and its extensions.
  The field \<open>size\<close> is written \<open>size_ev\<close>, and the \<open>timestamp\<close> of a
  \<open>CheckpointEvent\<close> is written \<open>cp_timestamp\<close>. \<open>driver\<close> is \<open>None\<close> or an int.
  \<open>data\<close> is the event's own \<open>BytesIO\<close>; a subclass reads its fields from it in
  \<open>__post_init__\<close>, which moves its position.
\<close>

record ReplayEvent =
  event_class :: int
  event_type :: int
  time :: pyfloat
  driver :: "int option"
  size_ev :: int
  data :: bytesio

record LightEvent = ReplayEvent +
  light_state :: int

record GarageEvent = ReplayEvent +
  timestamp :: pyfloat

record CheckpointEvent = ReplayEvent +
  lap_or_sector_time :: pyfloat
  cp_timestamp :: pyfloat
  lap :: int
  sector :: int

record PitLaneEvent = ReplayEvent +
  action :: int

record OvertakeEvent = ReplayEvent +
  standings :: "byte list"

record TelemetryEvent = ReplayEvent +
  gear :: int
  steer_yaw :: int
  throttle :: int
  engine_rpm :: int
  in_pit :: bool
  horn :: bool
  acceleration :: int
  following :: bool
  warning_light :: bool
  driver_visible :: bool
  head_light :: bool
  current_driver :: int
  dpart_debris11 :: bool
  dpart_debris10 :: bool
  dpart_debris9 :: bool
  dpart_debris8 :: bool
  dpart_debris7 :: bool
  dpart_debris6 :: bool
  dpart_debris5 :: bool
  dpart_debris4 :: bool
  dpart_debris3 :: bool
  dpart_debris2 :: bool
  dpart_debris1 :: bool
  dpart_debris0 :: bool
  dpart_rwing :: bool
  dpart_fwing :: bool
  dpart_rr :: bool
  dpart_rl :: bool
  dpart_fr :: bool
  dpart_fl :: bool
  tc_level :: int
  brakes :: int
  pos_x :: pyfloat
  pos_y :: pyfloat
  pos_z :: pyfloat
  rot_x :: pyfloat
  rot_y :: pyfloat
  rot_z :: pyfloat

text \<open>
  Each \<open>__post_init__\<close> runs on the object the dataclass constructor has filled
  (\<open>self\<close>, with the six base fields), reads from \<open>self.data\<close> and sets the fields of
  the subclass. An exception leaves no object.
\<close>

definition finish :: "(error + 'a) \<times> bytesio \<Rightarrow> ('a \<Rightarrow> bytesio \<Rightarrow> 'b) \<Rightarrow> error + 'b" where
  "finish r k = (case r of (Inl e, d) \<Rightarrow> Inl e | (Inr a, d) \<Rightarrow> Inr (k a d))"

definition LightEvent_post_init :: "ReplayEvent \<Rightarrow> error + LightEvent" where
  "LightEvent_post_init self =
     finish (read_integer 1 False (data self)) (\<lambda>v d.
       \<lparr>event_class = event_class self, event_type = event_type self, time = time self,
        driver = driver self, size_ev = size_ev self, data = d, light_state = v\<rparr>)"

definition GarageEvent_post_init :: "ReplayEvent \<Rightarrow> error + GarageEvent" where
  "GarageEvent_post_init self =
     finish (read_float 4 False (data self)) (\<lambda>v d.
       \<lparr>event_class = event_class self, event_type = event_type self, time = time self,
        driver = driver self, size_ev = size_ev self, data = d, timestamp = v\<rparr>)"

definition CheckpointEvent_post_init :: "ReplayEvent \<Rightarrow> error + CheckpointEvent" where
  "CheckpointEvent_post_init self =
     finish
       (bind (read_float 4 False) (\<lambda>t1.
        bind (read_float 4 False) (\<lambda>t2.
        bind (read_integer 1 False) (\<lambda>l.
        bind (read_integer 1 False) (\<lambda>sector_idx.
          return (t1, t2, l, sector_idx))))) (data self))
       (\<lambda>(t1, t2, l, sector_idx) d.
          \<lparr>event_class = event_class self, event_type = event_type self, time = time self,
           driver = driver self, size_ev = size_ev self, data = d,
           lap_or_sector_time = t1, cp_timestamp = t2, lap = l,
           sector = drop_bit 6 sector_idx AND 3\<rparr>)"

definition PitLaneEvent_post_init :: "ReplayEvent \<Rightarrow> error + PitLaneEvent" where
  "PitLaneEvent_post_init self =
     finish (read_integer 1 False (data self)) (\<lambda>v d.
       \<lparr>event_class = event_class self, event_type = event_type self, time = time self,
        driver = driver self, size_ev = size_ev self, data = d, action = v\<rparr>)"

definition OvertakeEvent_post_init :: "ReplayEvent \<Rightarrow> error + OvertakeEvent" where
  "OvertakeEvent_post_init self =
     finish
       (bind (read 21) (\<lambda>_. read_bytes (size_ev self - 21)) (data self))
       (\<lambda>v d.
          \<lparr>event_class = event_class self, event_type = event_type self, time = time self,
           driver = driver self, size_ev = size_ev self, data = d, standings = v\<rparr>)"

text \<open>
  The telemetry record: the fields are set in the order of the source; \<open>>>\<close> binds
  tighter than \<open>&\<close>, and \<open>&\<close> tighter than \<open>!=\<close>. \<open>speed_info\<close> and the 25 bytes
  after it are read and dropped.
\<close>

definition TelemetryEvent_post_init :: "ReplayEvent \<Rightarrow> error + TelemetryEvent" where
  "TelemetryEvent_post_init self =
     finish
       (bind (read_integer 4 False) (\<lambda>info1.
        bind (read_integer 4 False) (\<lambda>info2.
        bind (read_integer 5 False) (\<lambda>speed_info.
        bind (read 25) (\<lambda>_.
        bind (read_integer 1 False) (\<lambda>tc_brakes.
        bind (read_float2 4) (\<lambda>px.
        bind (read_float2 4) (\<lambda>py.
        bind (read_float2 4) (\<lambda>pz.
        bind (read_float2 4) (\<lambda>rx.
        bind (read_float2 4) (\<lambda>ry.
        bind (read_float2 4) (\<lambda>rz.
          return
           \<lparr>event_class = event_class self, event_type = event_type self, time = time self,
            driver = driver self, size_ev = size_ev self, data = data self,
            gear = event_type self - 8,
            steer_yaw = info1 AND 127,
            throttle = drop_bit 11 info1 AND 63,
            engine_rpm = drop_bit 18 info1,
            in_pit = drop_bit 17 info1 AND 1 \<noteq> 0,
            horn = drop_bit 10 info1 AND 1 \<noteq> 0,
            acceleration = drop_bit 24 info2 AND 0xFF,
            following = drop_bit 23 info2 AND 1 \<noteq> 0,
            warning_light = drop_bit 22 info2 AND 1 \<noteq> 0,
            driver_visible = drop_bit 21 info2 AND 1 \<noteq> 0,
            head_light = drop_bit 20 info2 AND 1 \<noteq> 0,
            current_driver = drop_bit 18 info2 AND 3,
            dpart_debris11 = drop_bit 7 info2 AND 1 \<noteq> 0,
            dpart_debris10 = drop_bit 6 info2 AND 1 \<noteq> 0,
            dpart_debris9 = drop_bit 5 info2 AND 1 \<noteq> 0,
            dpart_debris8 = drop_bit 4 info2 AND 1 \<noteq> 0,
            dpart_debris7 = drop_bit 3 info2 AND 1 \<noteq> 0,
            dpart_debris6 = drop_bit 2 info2 AND 1 \<noteq> 0,
            dpart_debris5 = drop_bit 1 info2 AND 1 \<noteq> 0,
            dpart_debris4 = drop_bit 0 info2 AND 1 \<noteq> 0,
            dpart_debris3 = drop_bit 31 info2 AND 1 \<noteq> 0,
            dpart_debris2 = drop_bit 30 info2 AND 1 \<noteq> 0,
            dpart_debris1 = drop_bit 29 info2 AND 1 \<noteq> 0,
            dpart_debris0 = drop_bit 28 info2 AND 1 \<noteq> 0,
            dpart_rwing = drop_bit 27 info2 AND 1 \<noteq> 0,
            dpart_fwing = drop_bit 26 info2 AND 1 \<noteq> 0,
            dpart_rr = drop_bit 25 info2 AND 1 \<noteq> 0,
            dpart_rl = drop_bit 24 info2 AND 1 \<noteq> 0,
            dpart_fr = drop_bit 23 info2 AND 1 \<noteq> 0,
            dpart_fl = drop_bit 22 info2 AND 1 \<noteq> 0,
            tc_level = drop_bit 6 tc_brakes,
            brakes = tc_brakes AND 0x3F,
            pos_x = px,
            pos_y = py,
            pos_z = pz,
            rot_x = rx,
            rot_y = ry,
            rot_z = rz\<rparr>)))))))))))
        (data self))
       (\<lambda>ev d. ev\<lparr>data := d\<rparr>)"

text \<open>The events a replay yields: one constructor for each class of events.py.\<close>

datatype event =
    Unknown ReplayEvent
  | Light LightEvent
  | Garage GarageEvent
  | Checkpoint CheckpointEvent
  | PitLane PitLaneEvent
  | Overtake OvertakeEvent
  | Telemetry TelemetryEvent

section \<open>replay.py\<close>

subsection \<open>The dispatch table\<close>

text \<open>The classes of events.py, as the values of the dictionary \<open>_EVENT_TYPES\<close>.\<close>

datatype cls =
    ClsUnknownEvent | ClsLightEvent | ClsGarageEvent | ClsCheckpointEvent
  | ClsPitLaneEvent | ClsOvertakeEvent | ClsTelemetryEvent

definition EVENT_TYPES :: "((int \<times> int) \<times> cls) list" where
  "EVENT_TYPES =
     [((0, 7), ClsTelemetryEvent),
      ((0, 8), ClsTelemetryEvent),
      ((0, 9), ClsTelemetryEvent),
      ((0, 10), ClsTelemetryEvent),
      ((0, 11), ClsTelemetryEvent),
      ((0, 12), ClsTelemetryEvent),
      ((0, 13), ClsTelemetryEvent),
      ((0, 14), ClsTelemetryEvent),
      ((0, 15), ClsTelemetryEvent),
      ((0, 16), ClsTelemetryEvent),
      ((1, 10), ClsLightEvent),
      ((1, 7), ClsGarageEvent),
      ((3, 6), ClsCheckpointEvent),
      ((5, 2), ClsPitLaneEvent),
      ((3, 48), ClsOvertakeEvent)]"

text \<open>\<open>_EVENT_TYPES.get(key, default)\<close>.\<close>

definition EVENT_TYPES_get :: "int \<times> int \<Rightarrow> cls \<Rightarrow> cls" where
  "EVENT_TYPES_get key dflt =
     (case map_of EVENT_TYPES key of None \<Rightarrow> dflt | Some c \<Rightarrow> c)"

text \<open>
  Calling a class: the dataclass constructor fills the base fields, then the
  \<open>__post_init__\<close> of the class runs; \<open>UnknownEvent\<close> has none.
\<close>

fun new_event :: "cls \<Rightarrow> ReplayEvent \<Rightarrow> error + event" where
  "new_event ClsUnknownEvent self = Inr (Unknown self)"
| "new_event ClsLightEvent self = map_sum id Light (LightEvent_post_init self)"
| "new_event ClsGarageEvent self = map_sum id Garage (GarageEvent_post_init self)"
| "new_event ClsCheckpointEvent self = map_sum id Checkpoint (CheckpointEvent_post_init self)"
| "new_event ClsPitLaneEvent self = map_sum id PitLane (PitLaneEvent_post_init self)"
| "new_event ClsOvertakeEvent self = map_sum id Overtake (OvertakeEvent_post_init self)"
| "new_event ClsTelemetryEvent self = map_sum id Telemetry (TelemetryEvent_post_init self)"

subsection \<open>The data model\<close>

datatype SessionType = TEST_DAY | PRACTICE | QUALIFYING | WARMUP | RACE

record Driver =
  num :: int
  name :: pystr
  codriver_name :: pystr
  vehicle_name :: pystr
  vehicle_uid :: pystr
  vehicle_version :: pystr
  veh_filename :: pystr
  time_enter :: pyfloat
  time_exit :: pyfloat

text \<open>
  \<open>version\<close> holds the four raw bytes read. \<open>_read_replay_info\<close> passes the int
  literal \<open>0\<close> for \<open>time_start\<close> and \<open>time_end\<close>; it is kept as the float of the
  same value.
\<close>

record ReplayInfo =
  version :: "byte list"
  rfm :: pystr
  mod_info :: pystr
  slice_count :: int
  event_count_total :: int
  time_start :: pyfloat
  time_end :: pyfloat
  scn_filename :: pystr
  aiw_filename :: pystr
  mod_name :: pystr
  mod_version :: pystr
  mod_uid :: pystr
  track_path :: pystr
  session_type :: SessionType
  is_private_session :: bool

record Replay =
  vcr_file :: bytesio
  info :: ReplayInfo
  drivers :: "Driver list"

subsection \<open>The header\<close>

text \<open>\<open>Replay._read_session_info\<close>; the \<open>print\<close> of the nibble is left out.\<close>

definition read_session_info :: "(SessionType \<times> bool) reader" where
  "read_session_info =
     bind (read_integer 1 False) (\<lambda>session_info.
       let session_type_number = session_info AND 0xF
       in case
            (if session_type_number = 0 then Inr TEST_DAY
             else if 1 \<le> session_type_number \<and> session_type_number \<le> 4 then Inr PRACTICE
             else if 5 \<le> session_type_number \<and> session_type_number \<le> 8 then Inr QUALIFYING
             else if session_type_number = 9 then Inr WARMUP
             else if 10 \<le> session_type_number \<and> session_type_number \<le> 13 then Inr RACE
             else Inl (ValueError session_type_number))
          of
            Inl e \<Rightarrow> raise e
          | Inr st \<Rightarrow> return (st, drop_bit 7 session_info AND 1 = 1))"

text \<open>
  \<open>Replay._read_replay_info\<close>: \<open>read()\<close> takes everything from the current position,
  \<open>find\<close> gives the index of the first newline in that (\<open>-1\<close> when there is none), and
  \<open>seek\<close> moves to that index plus one, counted from the start of the file.
\<close>

definition read_replay_info :: "ReplayInfo reader" where
  "read_replay_info =
     bind (read (- 1)) (\<lambda>rest.
     let header = find_byte 0x0A rest + 1 in
     bind (\<lambda>f. (Inr (), seek header f)) (\<lambda>_.
     bind (read 4) (\<lambda>_.
     bind (read 4) (\<lambda>version.
     bind (read_string 4) (\<lambda>rfm.
     bind (read 4) (\<lambda>_.
     bind (read_string 4) (\<lambda>mod_info.
     bind (read_string 4) (\<lambda>scn_filename.
     bind (read_string 4) (\<lambda>aiw_filename.
     bind (read_string 2) (\<lambda>mod_name.
     bind (read_string 2) (\<lambda>mod_version.
     bind (read_string 2) (\<lambda>mod_uid.
     bind (read_string 2) (\<lambda>track_path.
     bind (read 1) (\<lambda>_.
     bind read_session_info (\<lambda>(session_type, is_private_session).
     bind (read 67) (\<lambda>_.
       return
         \<lparr>version = version,
          rfm = rfm,
          mod_info = mod_info,
          slice_count = 0,
          event_count_total = 0,
          time_start = Finite 0,
          time_end = Finite 0,
          scn_filename = scn_filename,
          aiw_filename = aiw_filename,
          mod_name = mod_name,
          mod_version = mod_version,
          mod_uid = mod_uid,
          track_path = track_path,
          session_type = session_type,
          is_private_session = is_private_session\<rparr>))))))))))))))))"

subsection \<open>The driver list\<close>

definition read_driver :: "Driver reader" where
  "read_driver =
     bind (read_integer 1 False) (\<lambda>num.
     bind (read_string 1) (\<lambda>name.
     bind (read_string 1) (\<lambda>codriver_name.
     bind (read_string 2) (\<lambda>vehicle_name.
     bind (read_string 2) (\<lambda>vehicle_version.
     bind (read_string 2) (\<lambda>vehicle_uid.
     bind (read_bytes_as_string 32) (\<lambda>veh_filename.
     bind (read 48) (\<lambda>_.
     bind (read_float 4 False) (\<lambda>time_enter.
     bind (read_float 4 False) (\<lambda>time_exit.
       return
         \<lparr>num = num,
          name = name,
          codriver_name = codriver_name,
          vehicle_name = vehicle_name,
          vehicle_uid = vehicle_uid,
          vehicle_version = vehicle_version,
          veh_filename = veh_filename,
          time_enter = time_enter,
          time_exit = time_exit\<rparr>))))))))))"

fun driver_loop :: "nat \<Rightarrow> (Driver list) reader" where
  "driver_loop 0 = return []"
| "driver_loop (Suc n) =
     bind read_driver (\<lambda>d. bind (driver_loop n) (\<lambda>ds. return (d # ds)))"

definition read_driver_list :: "(Driver list) reader" where
  "read_driver_list =
     bind (read_integer 4 False) (\<lambda>driver_count. driver_loop (nat driver_count))"

subsection \<open>The summary header and the constructor\<close>

text \<open>\<open>Replay._read_slices_header\<close> assigns four fields of \<open>self.info\<close>.\<close>

definition read_slices_header :: "ReplayInfo \<Rightarrow> ReplayInfo reader" where
  "read_slices_header info0 =
     bind (read_integer 4 False) (\<lambda>v1.
     bind (read_integer 4 False) (\<lambda>v2.
     bind (read_float 4 False) (\<lambda>v3.
     bind (read_float 4 False) (\<lambda>v4.
       return (info0\<lparr>slice_count := v1, event_count_total := v2,
                     time_start := v3, time_end := v4\<rparr>)))))"

text \<open>
  \<open>Replay.__init__\<close>, from the stream that \<open>_open_vcr_file\<close> has opened (opening the
  file and undoing gzip are the file system's part).
\<close>

definition Replay_init :: "bytesio \<Rightarrow> error + Replay" where
  "Replay_init f =
     finish
       (bind read_replay_info (\<lambda>info0.
        bind read_driver_list (\<lambda>ds.
        bind (read_slices_header info0) (\<lambda>info1.
          return (info1, ds)))) f)
       (\<lambda>(info1, ds) f1. \<lparr>vcr_file = f1, info = info1, drivers = ds\<rparr>)"

subsection \<open>The event stream\<close>

text \<open>
  The four assignments that take the packed header word of an event apart, in the order
  of the source: size, class, type, driver.
\<close>

definition unpack_header :: "int \<Rightarrow> int \<times> int \<times> int \<times> int" where
  "unpack_header event_header =
     (let event_size = drop_bit 8 event_header AND 0x1ff;
          event_class = drop_bit 29 event_header;
          event_type = drop_bit 17 event_header AND 0x03f;
          driver_id = event_header AND 0x0ff
      in (event_size, event_class, event_type, driver_id))"

text \<open>One turn of the inner loop of \<open>Replay.events\<close>: the event it yields.\<close>

definition read_event :: "pyfloat \<Rightarrow> event reader" where
  "read_event slice_time =
     bind (read_integer 4 False) (\<lambda>event_header.
       (\<lambda>(event_size, event_class, event_type, driver_id).
           bind (read 1) (\<lambda>_.
           bind (read event_size) (\<lambda>event_data.
             let event = EVENT_TYPES_get (event_class, event_type) ClsUnknownEvent
             in case new_event event
                    \<lparr>event_class = event_class, event_type = event_type, time = slice_time,
                     driver = (if driver_id \<noteq> 255 then Some driver_id else None),
                     size_ev = event_size, data = BytesIO event_data\<rparr>
                of Inl e \<Rightarrow> raise e | Inr ev \<Rightarrow> return ev)))
         (unpack_header event_header))"

text \<open>
  The generator, run to its end: the events yielded in order, the exception that stopped
  it if one did, and the stream where it stopped.
\<close>

fun slice_loop :: "nat \<Rightarrow> pyfloat \<Rightarrow> bytesio \<Rightarrow> event list \<times> error option \<times> bytesio" where
  "slice_loop 0 slice_time f = ([], None, f)"
| "slice_loop (Suc n) slice_time f =
     (case read_event slice_time f of
        (Inl e, f1) \<Rightarrow> ([], Some e, f1)
      | (Inr ev, f1) \<Rightarrow>
          (case slice_loop n slice_time f1 of (evs, r, f2) \<Rightarrow> (ev # evs, r, f2)))"

fun events_loop :: "nat \<Rightarrow> bytesio \<Rightarrow> event list \<times> error option \<times> bytesio" where
  "events_loop 0 f = ([], None, f)"
| "events_loop (Suc n) f =
     (case bind (read_float 4 False) (\<lambda>slice_time.
           bind (read_integer 2 False) (\<lambda>slice_event_count.
             return (slice_time, slice_event_count))) f of
        (Inl e, f1) \<Rightarrow> ([], Some e, f1)
      | (Inr (slice_time, slice_event_count), f1) \<Rightarrow>
          (case slice_loop (nat slice_event_count) slice_time f1 of
             (evs, Some e, f2) \<Rightarrow> (evs, Some e, f2)
           | (evs, None, f2) \<Rightarrow>
               (case events_loop n f2 of (evs2, r, f3) \<Rightarrow> (evs @ evs2, r, f3))))"

definition events :: "Replay \<Rightarrow> (event list \<times> error option) \<times> Replay" where
  "events self =
     (case events_loop (nat (slice_count (info self))) (vcr_file self) of
        (evs, r, f) \<Rightarrow> ((evs, r), self\<lparr>vcr_file := f\<rparr>))"

section \<open>Definitions used to state the properties\<close>

text \<open>The fields every event has: the view of an event as a \<open>ReplayEvent\<close>.\<close>

fun base :: "event \<Rightarrow> ReplayEvent" where
  "base (Unknown e) = e"
| "base (Light e) = ReplayEvent.truncate e"
| "base (Garage e) = ReplayEvent.truncate e"
| "base (Checkpoint e) = ReplayEvent.truncate e"
| "base (PitLane e) = ReplayEvent.truncate e"
| "base (Overtake e) = ReplayEvent.truncate e"
| "base (Telemetry e) = ReplayEvent.truncate e"

text \<open>
  A telemetry payload of 63 bytes: the first word has steer/yaw 5, the horn bit, throttle 33,
  the in-pit bit and 9000 rpm; the second word has bit 26 alone; the byte after the 30
  skipped ones is \<open>0x4A\<close>; the first float is the pattern of 1.0.
\<close>

definition telemetry_payload :: "byte list" where
  "telemetry_payload =
     [0x05, 0x0C, 0xA3, 0x8C,  0x00, 0x00, 0x00, 0x04,
      0, 0, 0, 0, 0,
      0, 0, 0, 0, 0, 0, 0, 0, 0, 0, 0, 0, 0, 0, 0, 0, 0, 0, 0, 0, 0, 0, 0, 0, 0,
      0x4A,
      0x00, 0x00, 0x80, 0x3F,  0, 0, 0, 0,  0, 0, 0, 0,
      0, 0, 0, 0,  0, 0, 0, 0,  0, 0, 0, 0]"

definition telemetry_self :: ReplayEvent where
  "telemetry_self =
     \<lparr>event_class = 0, event_type = 11, time = Finite 0, driver = Some 3,
      size_ev = 63, data = BytesIO telemetry_payload\<rparr>"

text \<open>
  The stream after a read of \<open>k\<close> bytes: the position moves by \<open>k\<close>, or to the end of
  the buffer when fewer than \<open>k\<close> bytes remain.
\<close>

definition advance :: "nat \<Rightarrow> bytesio \<Rightarrow> bytesio" where
  "advance k f = f\<lparr>pos := pos f + min k (length (remaining f))\<rparr>"

text \<open>
  The packing of an event header as the specification words it, the inverse of the four
  assignments of \<open>Replay.events\<close>: the driver in bits 0 to 7, the size in bits 8 to 16, the
  type in bits 17 to 22, the class in bits 29 to 31. The source has no such function.
\<close>

definition pack_header :: "int \<Rightarrow> int \<Rightarrow> int \<Rightarrow> int \<Rightarrow> int" where
  "pack_header cl ty sz drv = push_bit 29 cl OR push_bit 17 ty OR push_bit 8 sz OR drv"

text \<open>
  Two streams that begin with the header word \<open>0x200003FF\<close> (class 1, type 0, size 3,
  driver 255) and the reserved byte: one holds the three payload bytes, the other only one.
\<close>

definition unknown_stream :: bytesio where
  "unknown_stream = BytesIO [0xFF, 0x03, 0x00, 0x20, 0x00, 7, 8, 9]"

definition truncated_stream :: bytesio where
  "truncated_stream = BytesIO [0xFF, 0x03, 0x00, 0x20, 0x00, 7]"

text \<open>
  A replay file of 215 bytes: a newline, the header (version 1, rfm "A", session-info byte
  \<open>0x8A\<close>), no driver, the summary (2 slices, 2 events, start 0, end 16), a slice at time 5
  with one event of class 1 and type 0, and a slice at time 6 with one telemetry event of
  type 11 for driver 3 over \<open>telemetry_payload\<close>. Then the replay that \<open>Replay.__init__\<close>
  makes of it, and the two events it yields.
\<close>

definition sample_file :: "byte list" where
  "sample_file =
     [0x0A, 0x69, 0x73, 0x72, 0x00, 0x01, 0x00, 0x00, 0x00, 0x01, 0x00, 0x00, 0x00, 0x41, 0x00, 0x00,
      0x00, 0x00, 0x00, 0x00, 0x00, 0x00, 0x00, 0x00, 0x00, 0x00, 0x00, 0x00, 0x00, 0x00, 0x00, 0x00,
      0x00, 0x00, 0x00, 0x00, 0x00, 0x00, 0x00, 0x8A, 0x00, 0x00, 0x00, 0x00, 0x00, 0x00, 0x00, 0x00,
      0x00, 0x00, 0x00, 0x00, 0x00, 0x00, 0x00, 0x00, 0x00, 0x00, 0x00, 0x00, 0x00, 0x00, 0x00, 0x00,
      0x00, 0x00, 0x00, 0x00, 0x00, 0x00, 0x00, 0x00, 0x00, 0x00, 0x00, 0x00, 0x00, 0x00, 0x00, 0x00,
      0x00, 0x00, 0x00, 0x00, 0x00, 0x00, 0x00, 0x00, 0x00, 0x00, 0x00, 0x00, 0x00, 0x00, 0x00, 0x00,
      0x00, 0x00, 0x00, 0x00, 0x00, 0x00, 0x00, 0x00, 0x00, 0x00, 0x00, 0x00, 0x00, 0x00, 0x00, 0x02,
      0x00, 0x00, 0x00, 0x02, 0x00, 0x00, 0x00, 0x00, 0x00, 0x00, 0x00, 0x10, 0x00, 0x00, 0x00, 0x05,
      0x00, 0x00, 0x00, 0x01, 0x00, 0xFF, 0x03, 0x00, 0x20, 0x00, 0x07, 0x08, 0x09, 0x06, 0x00, 0x00,
      0x00, 0x01, 0x00, 0x03, 0x3F, 0x16, 0x00, 0x00, 0x05, 0x0C, 0xA3, 0x8C, 0x00, 0x00, 0x00, 0x04,
      0x00, 0x00, 0x00, 0x00, 0x00, 0x00, 0x00, 0x00, 0x00, 0x00, 0x00, 0x00, 0x00, 0x00, 0x00, 0x00,
      0x00, 0x00, 0x00, 0x00, 0x00, 0x00, 0x00, 0x00, 0x00, 0x00, 0x00, 0x00, 0x00, 0x00, 0x4A, 0x00,
      0x00, 0x80, 0x3F, 0x00, 0x00, 0x00, 0x00, 0x00, 0x00, 0x00, 0x00, 0x00, 0x00, 0x00, 0x00, 0x00,
      0x00, 0x00, 0x00, 0x00, 0x00, 0x00, 0x00]"

definition sample_info :: ReplayInfo where
  "sample_info =
     \<lparr>version = [1, 0, 0, 0], rfm = [65], mod_info = [],
      slice_count = 2, event_count_total = 2, time_start = Finite 0, time_end = Finite 16,
      scn_filename = [], aiw_filename = [], mod_name = [], mod_version = [], mod_uid = [],
      track_path = [], session_type = RACE, is_private_session = True\<rparr>"

definition sample_replay :: Replay where
  "sample_replay = \<lparr>vcr_file = \<lparr>buf = sample_file, pos = 127\<rparr>, info = sample_info, drivers = []\<rparr>"

definition sample_telemetry :: TelemetryEvent where
  "sample_telemetry =
     \<lparr>event_class = 0, event_type = 11, time = Finite 6, driver = Some 3, size_ev = 63,
      data = \<lparr>buf = telemetry_payload, pos = 63\<rparr>,
      gear = 3, steer_yaw = 5, throttle = 33, engine_rpm = 9000,
      in_pit = True, horn = True, acceleration = 4, following = False,
      warning_light = False, driver_visible = False, head_light = False,
      current_driver = 0, dpart_debris11 = False, dpart_debris10 = False,
      dpart_debris9 = False, dpart_debris8 = False, dpart_debris7 = False,
      dpart_debris6 = False, dpart_debris5 = False, dpart_debris4 = False,
      dpart_debris3 = False, dpart_debris2 = False, dpart_debris1 = False,
      dpart_debris0 = False, dpart_rwing = False, dpart_fwing = True,
      dpart_rr = False, dpart_rl = False, dpart_fr = False,
      dpart_fl = False, tc_level = 1, brakes = 10, pos_x = Finite 1,
      pos_y = Finite 0, pos_z = Finite 0, rot_x = Finite 0,
      rot_y = Finite 0, rot_z = Finite 0\<rparr>"

definition sample_unknown :: ReplayEvent where
  "sample_unknown =
     \<lparr>event_class = 1, event_type = 0, time = Finite 5, driver = None,
      size_ev = 3, data = BytesIO [7, 8, 9]\<rparr>"

text \<open>
  The detachable-part and debris flags of a telemetry event: the eighteen fields whose name
  begins with \<open>dpart_\<close>, in the order the class declares and sets them.
\<close>

definition dpart_flags :: "TelemetryEvent \<Rightarrow> bool list" where
  "dpart_flags ev =
     [dpart_debris11 ev, dpart_debris10 ev, dpart_debris9 ev, dpart_debris8 ev,
      dpart_debris7 ev, dpart_debris6 ev, dpart_debris5 ev, dpart_debris4 ev,
      dpart_debris3 ev, dpart_debris2 ev, dpart_debris1 ev, dpart_debris0 ev,
      dpart_rwing ev, dpart_fwing ev, dpart_rr ev, dpart_rl ev, dpart_fr ev, dpart_fl ev]"

text \<open>
  The bytes of one driver record followed by one more byte: number 7, name "A", four empty
  strings, the file name "v" in its 32 bytes, 48 bytes, the times 16 and 256. Then the
  driver that \<open>_read_driver_list\<close> makes of them.
\<close>

definition sample_driver_bytes :: "byte list" where
  "sample_driver_bytes =
     [0x07,  0x01, 0x41,  0x00,  0x00, 0x00,  0x00, 0x00,  0x00, 0x00,
      0x76, 0, 0, 0, 0, 0, 0, 0, 0, 0, 0, 0, 0, 0, 0, 0,
      0, 0, 0, 0, 0, 0, 0, 0, 0, 0, 0, 0, 0, 0, 0, 0,
      0, 0, 0, 0, 0, 0, 0, 0, 0, 0, 0, 0, 0, 0, 0, 0,
      0, 0, 0, 0, 0, 0, 0, 0, 0, 0, 0, 0, 0, 0, 0, 0,
      0, 0, 0, 0, 0, 0, 0, 0, 0, 0, 0, 0, 0, 0, 0, 0,
      0x10, 0x00, 0x00, 0x00,  0x00, 0x01, 0x00, 0x00,  0x02]"

definition sample_driver :: Driver where
  "sample_driver =
     \<lparr>num = 7, name = [65], codriver_name = [], vehicle_name = [], vehicle_uid = [],
      vehicle_version = [], veh_filename = [118], time_enter = Finite 16,
      time_exit = Finite 256\<rparr>"

section \<open>Facts about the readers\<close>

lemma bind_Inr_iff:
  "bind m k f = (Inr b, g) \<longleftrightarrow> (\<exists>a f1. m f = (Inr a, f1) \<and> k a f1 = (Inr b, g))"
  by (auto simp: bind_def split: prod.splits sum.splits)

lemma return_Inr_iff: "return a f = (Inr b, g) \<longleftrightarrow> a = b \<and> f = g"
  by (auto simp: return_def)

lemma finish_Inr_iff: "finish r k = Inr b \<longleftrightarrow> (\<exists>a d. r = (Inr a, d) \<and> b = k a d)"
  by (auto simp: finish_def split: prod.splits sum.splits)

text \<open>A read of \<open>n\<close> bytes, in general and when the buffer holds them.\<close>

lemma read_nonneg:
  "0 \<le> n \<Longrightarrow>
     read n f = (Inr (take (nat n) (remaining f)),
                 f\<lparr>pos := pos f + min (nat n) (length (remaining f))\<rparr>)"
  by (simp add: read_def read_raw_def Let_def min_def)

lemma read_integer_unsigned:
  "0 \<le> n \<Longrightarrow>
     read_integer n False f =
       (Inr (le_uint (take (nat n) (remaining f))),
        f\<lparr>pos := pos f + min (nat n) (length (remaining f))\<rparr>)"
  by (simp add: read_integer_def bind_def read_nonneg return_def from_bytes_def)

lemma read_enough:
  "0 \<le> n \<Longrightarrow> pos f + nat n \<le> length (buf f) \<Longrightarrow>
     read n f = (Inr (take (nat n) (drop (pos f) (buf f))), f\<lparr>pos := pos f + nat n\<rparr>)"
  by (simp add: read_nonneg min_def remaining_def)

lemma read_integer_enough:
  "0 \<le> n \<Longrightarrow> pos f + nat n \<le> length (buf f) \<Longrightarrow>
     read_integer n False f =
       (Inr (le_uint (take (nat n) (drop (pos f) (buf f)))), f\<lparr>pos := pos f + nat n\<rparr>)"
  by (simp add: read_integer_def bind_def read_enough return_def from_bytes_def)

lemma read_float2_enough:
  "pos f + 4 \<le> length (buf f) \<Longrightarrow>
     read_float2 4 f =
       (Inr (binary32_value (le_uint (take 4 (drop (pos f) (buf f))))),
        f\<lparr>pos := pos f + 4\<rparr>)"
  by (simp add: read_float2_def bind_def read_enough struct_unpack_f_def return_def)

text \<open>The masks of the source, as bits.\<close>

lemma bit_test: "(drop_bit k (x::int) AND 1 \<noteq> 0) = bit x k"
  by (simp add: bit_iff_odd_drop_bit and_one_eq mod_2_eq_odd)

lemma bit_test0: "((x::int) AND 1 \<noteq> 0) = bit x 0"
  using bit_test [of 0 x] by simp

lemma and_255: "(x::int) AND 255 = take_bit 8 x"
  by (simp add: take_bit_eq_mask mask_eq_exp_minus_1)

lemma and_511: "(x::int) AND 511 = take_bit 9 x"
  by (simp add: take_bit_eq_mask mask_eq_exp_minus_1)

lemma and_63: "(x::int) AND 63 = take_bit 6 x"
  by (simp add: take_bit_eq_mask mask_eq_exp_minus_1)

lemma bit_bounded: "0 \<le> (x::int) \<Longrightarrow> x < 2 ^ k \<Longrightarrow> bit x m \<Longrightarrow> m < k"
proof -
  assume a: "0 \<le> x" "x < 2 ^ k" "bit x m"
  then have "take_bit k x = x" by (simp add: take_bit_int_eq_self)
  then have "bit (take_bit k x) m" using a by simp
  then show ?thesis by (simp add: bit_take_bit_iff)
qed

text \<open>The value of a little-endian integer of \<open>n\<close> bytes lies below \<open>256 ^ n\<close>.\<close>

lemma le_uint_nonneg: "0 \<le> le_uint bs"
  by (induction bs) auto

lemma le_uint_bound: "le_uint bs < 256 ^ length bs"
proof (induction bs)
  case Nil then show ?case by simp
next
  case (Cons b bs)
  have "uint b < 256" using uint_bounded [of b] by simp
  with Cons show ?case by simp
qed

text \<open>Reads that may come short, with the stream they leave.\<close>

lemma read_advance:
  "0 \<le> n \<Longrightarrow> read n f = (Inr (take (nat n) (remaining f)), advance (nat n) f)"
  by (simp add: read_nonneg advance_def)

lemma read_integer_advance:
  "0 \<le> n \<Longrightarrow>
     read_integer n False f = (Inr (le_uint (take (nat n) (remaining f))), advance (nat n) f)"
  by (simp add: read_integer_unsigned advance_def)

lemma remaining_advance: "remaining (advance k f) = drop k (remaining f)"
  by (simp add: advance_def remaining_def min_def add.commute)

lemma advance_advance: "advance j (advance k f) = advance (k + j) f"
  by (simp add: advance_def remaining_def min_def)

lemma case_raise_return: "(case r of Inl e \<Rightarrow> raise e | Inr v \<Rightarrow> return v) f = (r, f)"
  by (simp add: raise_def return_def split: sum.splits)

subsection \<open>One event\<close>

lemma unpack_header_nonneg: "0 \<le> fst (unpack_header h)"
  by (simp add: unpack_header_def)

text \<open>
  One turn of the inner loop: the header word is the integer of the next four bytes, the
  payload the bytes after the fifth, and the result is whatever calling the class gives.
\<close>

lemma read_event_eq:
  "read_event slice_time f =
     (case unpack_header (le_uint (take 4 (remaining f))) of
        (sz, cl, ty, drv) \<Rightarrow>
          (new_event (EVENT_TYPES_get (cl, ty) ClsUnknownEvent)
             \<lparr>event_class = cl, event_type = ty, time = slice_time,
              driver = (if drv \<noteq> 255 then Some drv else None),
              size_ev = sz, data = BytesIO (take (nat sz) (drop 5 (remaining f)))\<rparr>,
           advance (5 + nat sz) f))"
proof -
  obtain sz cl ty drv
    where u: "unpack_header (le_uint (take 4 (remaining f))) = (sz, cl, ty, drv)"
    by (cases "unpack_header (le_uint (take 4 (remaining f)))") auto
  have sz: "0 \<le> sz"
    using unpack_header_nonneg [of "le_uint (take 4 (remaining f))"] u by simp
  show ?thesis
    using sz
    by (simp add: read_event_def bind_def read_integer_advance u read_advance remaining_advance
        advance_advance Let_def case_raise_return)
qed

text \<open>Calling a class keeps the five base fields it was given.\<close>

lemma new_event_base:
  "new_event c self = Inr ev \<Longrightarrow>
     event_class (base ev) = event_class self \<and> event_type (base ev) = event_type self
     \<and> time (base ev) = time self \<and> driver (base ev) = driver self
     \<and> size_ev (base ev) = size_ev self"
  by (cases c)
    (auto simp: LightEvent_post_init_def GarageEvent_post_init_def CheckpointEvent_post_init_def
      PitLaneEvent_post_init_def OvertakeEvent_post_init_def TelemetryEvent_post_init_def
      finish_Inr_iff bind_Inr_iff return_Inr_iff ReplayEvent.truncate_def map_sum_def
      split: sum.splits)

lemma new_event_Telemetry:
  "new_event c self = Inr (Telemetry tel) \<Longrightarrow>
     c = ClsTelemetryEvent \<and> gear tel = event_type self - 8
     \<and> event_type tel = event_type self \<and> event_class tel = event_class self"
  by (cases c)
    (auto simp: TelemetryEvent_post_init_def finish_Inr_iff bind_Inr_iff return_Inr_iff
      map_sum_def split: sum.splits)

subsection \<open>The stream of events\<close>

text \<open>Every event the generator yields is the result of one turn of the inner loop.\<close>

lemma slice_loop_mem:
  "ev \<in> set (fst (slice_loop n t f)) \<Longrightarrow> \<exists>g g'. read_event t g = (Inr ev, g')"
proof (induction n arbitrary: f)
  case 0 then show ?case by simp
next
  case (Suc n)
  obtain r f1 where r: "read_event t f = (r, f1)" by (cases "read_event t f") auto
  show ?case
  proof (cases r)
    case (Inl e)
    with Suc.prems r show ?thesis by simp
  next
    case (Inr ev1)
    obtain evs q f2 where l: "slice_loop n t f1 = (evs, q, f2)"
      by (cases "slice_loop n t f1") auto
    from Suc.prems r Inr l have "ev = ev1 \<or> ev \<in> set (fst (slice_loop n t f1))" by auto
    then show ?thesis
    proof
      assume "ev = ev1" with r Inr show ?thesis by blast
    next
      assume "ev \<in> set (fst (slice_loop n t f1))"
      then show ?thesis by (rule Suc.IH)
    qed
  qed
qed

lemma events_loop_mem:
  "ev \<in> set (fst (events_loop n f)) \<Longrightarrow> \<exists>t g g'. read_event t g = (Inr ev, g')"
proof (induction n arbitrary: f)
  case 0 then show ?case by simp
next
  case (Suc n)
  define slice_head where "slice_head =
     bind (read_float 4 False) (\<lambda>slice_time.
     bind (read_integer 2 False) (\<lambda>slice_event_count. return (slice_time, slice_event_count)))"
  obtain r f1 where r: "slice_head f = (r, f1)" by (cases "slice_head f") auto
  show ?case
  proof (cases r)
    case (Inl e)
    with Suc.prems r show ?thesis by (simp add: slice_head_def)
  next
    case (Inr p)
    obtain t c where p: "p = (t, c)" by (cases p) auto
    obtain evs q f2 where l: "slice_loop (nat c) t f1 = (evs, q, f2)"
      by (cases "slice_loop (nat c) t f1") auto
    obtain evs2 q2 f3 where l2: "events_loop n f2 = (evs2, q2, f3)"
      by (cases "events_loop n f2") auto
    from Suc.prems r Inr p l l2
    have "ev \<in> set (fst (slice_loop (nat c) t f1)) \<or> ev \<in> set (fst (events_loop n f2))"
      by (cases q) (auto simp: slice_head_def)
    then show ?thesis
    proof
      assume "ev \<in> set (fst (slice_loop (nat c) t f1))"
      from slice_loop_mem [OF this] show ?thesis by blast
    next
      assume "ev \<in> set (fst (events_loop n f2))"
      then show ?thesis by (rule Suc.IH)
    qed
  qed
qed

text \<open>The session-info byte, read from any stream (at the end of the buffer it reads 0).\<close>

lemma read_session_info_value:
  "fst (read_session_info f) =
     (let session_info = le_uint (take 1 (remaining f));
          n = take_bit 4 session_info;
          p = bit session_info 7
      in if n = 0 then Inr (TEST_DAY, p)
         else if n \<le> 4 then Inr (PRACTICE, p)
         else if n \<le> 8 then Inr (QUALIFYING, p)
         else if n = 9 then Inr (WARMUP, p)
         else if n \<le> 13 then Inr (RACE, p)
         else Inl (ValueError n))"
proof -
  define x where "x = le_uint (take 1 (remaining f))"
  define n where "n = take_bit 4 x"
  have m: "x AND 15 = n"
    by (simp add: n_def take_bit_eq_mask mask_eq_exp_minus_1)
  have p: "(drop_bit 7 x AND 1 = 1) = bit x 7"
    by (simp add: bit_iff_odd_drop_bit and_one_eq mod_2_eq_odd)
  have n0: "0 \<le> n" by (simp add: n_def)
  have r: "read_integer 1 False f = (Inr x, f\<lparr>pos := pos f + min 1 (length (remaining f))\<rparr>)"
    using read_integer_unsigned [of 1 f] by (simp add: x_def)
  have "fst (read_session_info f) =
     (let p = bit x 7
      in if n = 0 then Inr (TEST_DAY, p)
         else if n \<le> 4 then Inr (PRACTICE, p)
         else if n \<le> 8 then Inr (QUALIFYING, p)
         else if n = 9 then Inr (WARMUP, p)
         else if n \<le> 13 then Inr (RACE, p)
         else Inl (ValueError n))"
    using n0 by (auto simp: read_session_info_def bind_def r Let_def m p return_def raise_def)
  then show ?thesis by (simp add: x_def n_def Let_def)
qed


text \<open>The sample file, opened and iterated.\<close>

lemma sample_init: "Replay_init (BytesIO sample_file) = Inr sample_replay"
  by code_simp

lemma sample_events:
  "events sample_replay =
     (([Unknown sample_unknown, Telemetry sample_telemetry], None),
      sample_replay\<lparr>vcr_file := \<lparr>buf = sample_file, pos = 215\<rparr>\<rparr>)"
  by code_simp


text \<open>The keys of the dispatch table that lead to the telemetry class.\<close>

lemma table_telemetry:
  "EVENT_TYPES_get (c, t) ClsUnknownEvent = ClsTelemetryEvent \<longleftrightarrow> c = 0 \<and> 7 \<le> t \<and> t \<le> 16"
proof
  assume "EVENT_TYPES_get (c, t) ClsUnknownEvent = ClsTelemetryEvent"
  then show "c = 0 \<and> 7 \<le> t \<and> t \<le> 16"
    by (auto simp: EVENT_TYPES_get_def EVENT_TYPES_def split: if_splits)
next
  assume a: "c = 0 \<and> 7 \<le> t \<and> t \<le> 16"
  then have "t = 7 \<or> t = 8 \<or> t = 9 \<or> t = 10 \<or> t = 11 \<or> t = 12 \<or> t = 13 \<or> t = 14 \<or> t = 15 \<or> t = 16"
    by arith
  with a show "EVENT_TYPES_get (c, t) ClsUnknownEvent = ClsTelemetryEvent"
    by (auto simp: EVENT_TYPES_get_def EVENT_TYPES_def)
qed

lemma read_event_Telemetry:
  assumes "read_event slice_time f = (Inr (Telemetry tel), g)"
  shows "gear tel = event_type tel - 8 \<and> event_class tel = 0
         \<and> 7 \<le> event_type tel \<and> event_type tel \<le> 16"
proof -
  obtain sz cl ty drv
    where u: "unpack_header (le_uint (take 4 (remaining f))) = (sz, cl, ty, drv)"
    by (cases "unpack_header (le_uint (take 4 (remaining f)))") auto
  from assms have c: "new_event (EVENT_TYPES_get (cl, ty) ClsUnknownEvent)
             \<lparr>event_class = cl, event_type = ty, time = slice_time,
              driver = (if drv \<noteq> 255 then Some drv else None),
              size_ev = sz, data = BytesIO (take (nat sz) (drop 5 (remaining f)))\<rparr>
           = Inr (Telemetry tel)"
    by (simp add: read_event_eq u)
  from new_event_Telemetry [OF c]
  have k: "EVENT_TYPES_get (cl, ty) ClsUnknownEvent = ClsTelemetryEvent"
    and g: "gear tel = ty - 8" and t: "event_type tel = ty" and e: "event_class tel = cl"
    by simp_all
  from k have "cl = 0 \<and> 7 \<le> ty \<and> ty \<le> 16" by (simp add: table_telemetry)
  with g t e show ?thesis by simp
qed

text \<open>
  The legacy float reader on 4 bytes: the integer of the bytes, which a binary64 holds
  exactly; and the summary header.
\<close>

lemma read_float_4:
  "read_float 4 False f =
     (Inr (Finite (of_int (le_uint (take 4 (remaining f))))), advance 4 f)"
proof -
  define v where "v = le_uint (take 4 (remaining f))"
  have "v < 256 ^ length (take 4 (remaining f))" unfolding v_def by (rule le_uint_bound)
  also have "\<dots> \<le> (256::int) ^ 4" by (rule power_increasing) simp_all
  finally have hi: "v < 2 ^ 53" by simp
  have lo: "0 \<le> v" unfolding v_def by (rule le_uint_nonneg)
  from lo hi have "float_of_int v = Inr (Finite (of_int v))"
    by (simp add: float_of_int_def Let_def)
  then show ?thesis
    using read_advance [of 4 f]
    by (simp add: read_float_def bind_def from_bytes_def return_def v_def)
qed

lemma read_slices_header_eq:
  "read_slices_header info0 f =
     (Inr (info0\<lparr>slice_count := le_uint (take 4 (remaining f)),
                 event_count_total := le_uint (take 4 (drop 4 (remaining f))),
                 time_start := Finite (of_int (le_uint (take 4 (drop 8 (remaining f))))),
                 time_end := Finite (of_int (le_uint (take 4 (drop 12 (remaining f)))))\<rparr>),
      advance 16 f)"
  using read_integer_advance [of 4]
  by (simp add: read_slices_header_def bind_def read_float_4 remaining_advance
      advance_advance return_def)

text \<open>More masks of the source, as bits.\<close>

lemma and_127: "(x::int) AND 127 = take_bit 7 x"
  by (simp add: take_bit_eq_mask mask_eq_exp_minus_1)

lemma and_3: "(x::int) AND 3 = take_bit 2 x"
  by (simp add: take_bit_eq_mask mask_eq_exp_minus_1)

text \<open>
  The telemetry decoder on a payload of 63 bytes or more: every field, by the bits and
  bytes of the payload it comes from.
\<close>

lemma telemetry_fields:
  assumes "63 \<le> length (remaining (data self))"
  shows "\<exists>ev. TelemetryEvent_post_init self = Inr ev
     \<and> (let d = remaining (data self);
             info1 = le_uint (take 4 d);
             info2 = le_uint (take 4 (drop 4 d));
             tc_brakes = le_uint (take 1 (drop 38 d))
         in steer_yaw ev = take_bit 7 info1
          \<and> horn ev = bit info1 10
          \<and> throttle ev = take_bit 6 (drop_bit 11 info1)
          \<and> in_pit ev = bit info1 17
          \<and> engine_rpm ev = drop_bit 18 info1
          \<and> acceleration ev = take_bit 8 (drop_bit 24 info2)
          \<and> following ev = bit info2 23
          \<and> warning_light ev = bit info2 22
          \<and> driver_visible ev = bit info2 21
          \<and> head_light ev = bit info2 20
          \<and> current_driver ev = take_bit 2 (drop_bit 18 info2)
          \<and> dpart_flags ev =
              map (bit info2) [7, 6, 5, 4, 3, 2, 1, 0, 31, 30, 29, 28, 27, 26, 25, 24, 23, 22]
          \<and> tc_level ev = drop_bit 6 tc_brakes
          \<and> brakes ev = take_bit 6 tc_brakes
          \<and> pos_x ev = binary32_value (le_uint (take 4 (drop 39 d)))
          \<and> pos_y ev = binary32_value (le_uint (take 4 (drop 43 d)))
          \<and> pos_z ev = binary32_value (le_uint (take 4 (drop 47 d)))
          \<and> rot_x ev = binary32_value (le_uint (take 4 (drop 51 d)))
          \<and> rot_y ev = binary32_value (le_uint (take 4 (drop 55 d)))
          \<and> rot_z ev = binary32_value (le_uint (take 4 (drop 59 d)))
          \<and> data ev = advance 63 (data self))"
proof -
  from assms have len: "pos (data self) + 63 \<le> length (buf (data self))"
    by (simp add: remaining_def)
  show ?thesis
    using len
    apply (simp add: TelemetryEvent_post_init_def bind_def read_enough read_integer_enough
        read_float2_enough return_def finish_def remaining_def)
    apply (simp add: Let_def dpart_flags_def bit_test bit_test0 and_255 and_127 and_63 and_3
        bit_simps add.commute advance_def remaining_def min_def)
    apply (simp add: numeral_2_eq_2)
    done
qed

text \<open>
  The value of a binary32 pattern with a biased exponent from 1 to 254, in the usual form:
  sign, significand \<open>1 + fraction / 2^23\<close>, and 2 to the exponent less 127.
\<close>

lemma binary32_normal:
  assumes "0 < take_bit 8 (drop_bit 23 w)" "take_bit 8 (drop_bit 23 w) < 255"
  shows "binary32_value w =
     Finite ((if bit w 31 then - 1 else 1)
             * (1 + of_int (take_bit 23 w) / 2 ^ 23)
             * 2 powi (take_bit 8 (drop_bit 23 w) - 127))"
proof -
  define e where "e = take_bit 8 (drop_bit 23 w)"
  define m where "m = take_bit 23 w"
  have e: "drop_bit 23 w AND 255 = e" by (simp add: e_def and_255)
  have m: "w AND 8388607 = m" by (simp add: m_def take_bit_eq_mask mask_eq_exp_minus_1)
  have s: "(drop_bit 31 w AND 1 = 1) = bit w 31"
    by (simp add: bit_iff_odd_drop_bit and_one_eq mod_2_eq_odd)
  have p: "(2::rat) powi (e - 127) = 2 ^ 23 * 2 powi (e - 150)"
    using power_int_add [of "2::rat" 23 "e - 150"] by simp
  have v: "binary32_value w =
     (if 150 \<le> e then Finite ((if bit w 31 then - 1 else 1) * of_int ((2 ^ 23 + m) * 2 ^ nat (e - 150)))
      else Finite ((if bit w 31 then - 1 else 1) * of_int (2 ^ 23 + m) / 2 ^ nat (150 - e)))"
    using assms unfolding binary32_value_def Let_def e m s by (simp add: e_def [symmetric])
  show ?thesis
  proof (cases "150 \<le> e")
    case True
    then have "(2::rat) powi (e - 150) = 2 ^ nat (e - 150)" by (simp add: power_int_def)
    with True show ?thesis unfolding v e_def [symmetric] m_def [symmetric] p
      by (simp add: field_simps)
  next
    case False
    define q where "q = (2::rat) ^ nat (150 - e)"
    have q0: "q \<noteq> 0" by (simp add: q_def)
    from False have pq: "(2::rat) powi (e - 150) = 1 / q"
      by (simp add: power_int_def power_one_over q_def)
    have "binary32_value w = Finite ((if bit w 31 then - 1 else 1) * of_int (2 ^ 23 + m) / q)"
      using False by (simp add: v q_def)
    also have "(if bit w 31 then - 1 else 1) * of_int (2 ^ 23 + m) / q =
        (if bit w 31 then - 1 else 1) * (1 + of_int m / 2 ^ 23) * (2 ^ 23 * (1 / q))"
      using q0 by (simp add: field_simps)
    finally show ?thesis unfolding e_def [symmetric] m_def [symmetric] p pq .
  qed
qed

text \<open>The timestamps of garage and checkpoint events are read by \<open>read_float\<close>.\<close>

lemma garage_timestamp:
  "GarageEvent_post_init self =
     Inr \<lparr>event_class = event_class self, event_type = event_type self, time = time self,
          driver = driver self, size_ev = size_ev self, data = advance 4 (data self),
          timestamp = Finite (of_int (le_uint (take 4 (remaining (data self)))))\<rparr>"
  by (simp add: GarageEvent_post_init_def read_float_4 finish_def)

lemma checkpoint_times:
  "\<exists>ev. CheckpointEvent_post_init self = Inr ev
     \<and> lap_or_sector_time ev = Finite (of_int (le_uint (take 4 (remaining (data self)))))
     \<and> cp_timestamp ev = Finite (of_int (le_uint (take 4 (drop 4 (remaining (data self))))))"
  using read_integer_advance [of 1]
  by (simp add: CheckpointEvent_post_init_def bind_def read_float_4 remaining_advance
      return_def finish_def)

subsection \<open>Reads that come short, and the exceptions of decoding\<close>






text \<open>
  \<open>read_float2\<close> on any stream, and the readers under \<open>bind\<close>.
\<close>

lemma read_float2_advance:
  "read_float2 4 f =
     (if 4 \<le> length (remaining f) then Inr (binary32_value (le_uint (take 4 (remaining f))))
      else Inl StructError, advance 4 f)"
  using read_advance [of 4 f]
  by (simp add: read_float2_def bind_def struct_unpack_f_def return_def raise_def min_def)

lemma bind_read_float2:
  "bind (read_float2 4) k f =
     (if 4 \<le> length (remaining f)
      then k (binary32_value (le_uint (take 4 (remaining f)))) (advance 4 f)
      else (Inl StructError, advance 4 f))"
  by (simp add: bind_def read_float2_advance)

lemma bind_read_integer:
  "0 \<le> n \<Longrightarrow> bind (read_integer n False) k f =
     k (le_uint (take (nat n) (remaining f))) (advance (nat n) f)"
  by (simp add: bind_def read_integer_advance)

lemma bind_read:
  "0 \<le> n \<Longrightarrow> bind (read n) k f = k (take (nat n) (remaining f)) (advance (nat n) f)"
  by (simp add: bind_def read_advance)

text \<open>
  A telemetry payload of fewer than 63 bytes: one of the six \<open>read_float2\<close> gets fewer
  than 4 bytes.
\<close>

lemma telemetry_short:
  assumes "length (remaining (data self)) < 63"
  shows "TelemetryEvent_post_init self = Inl StructError"
  using assms
  by (simp add: TelemetryEvent_post_init_def bind_read_integer bind_read bind_read_float2
      remaining_advance advance_advance finish_def)

subsection \<open>Events of a replay\<close>

text \<open>
  Every event of a replay comes from one turn of the inner loop; when its class and type
  are not in the table it is an Unknown event over at most \<open>size\<close> bytes.
\<close>

lemma events_mem:
  assumes "ev \<in> set (fst (fst (events replay)))"
  shows "\<exists>t g g'. read_event t g = (Inr ev, g')"
proof -
  from assms
  have "ev \<in> set (fst (events_loop (nat (slice_count (info replay))) (vcr_file replay)))"
    by (simp add: events_def split: prod.splits)
  then show ?thesis by (rule events_loop_mem)
qed

lemma read_event_unmapped:
  assumes r: "read_event t g = (Inr ev, g')"
    and m: "map_of EVENT_TYPES (event_class (base ev), event_type (base ev)) = None"
  shows "\<exists>e. ev = Unknown e \<and> pos (data e) = 0 \<and> int (length (buf (data e))) \<le> size_ev e"
proof -
  obtain sz cl ty drv
    where u: "unpack_header (le_uint (take 4 (remaining g))) = (sz, cl, ty, drv)"
    by (cases "unpack_header (le_uint (take 4 (remaining g)))") auto
  have sz: "0 \<le> sz"
    using unpack_header_nonneg [of "le_uint (take 4 (remaining g))"] u by simp
  define self where "self =
     \<lparr>event_class = cl, event_type = ty, time = t,
      driver = (if drv \<noteq> 255 then Some drv else None),
      size_ev = sz, data = BytesIO (take (nat sz) (drop 5 (remaining g)))\<rparr>"
  from r have c: "new_event (EVENT_TYPES_get (cl, ty) ClsUnknownEvent) self = Inr ev"
    by (simp add: read_event_eq u self_def)
  from new_event_base [OF c]
  have "event_class (base ev) = cl" "event_type (base ev) = ty" by (simp_all add: self_def)
  with m have "EVENT_TYPES_get (cl, ty) ClsUnknownEvent = ClsUnknownEvent"
    by (simp add: EVENT_TYPES_get_def)
  with c have "ev = Unknown self" by simp
  moreover have "pos (data self) = 0" by (simp add: self_def BytesIO_def)
  moreover have "int (length (buf (data self))) \<le> size_ev self"
    using sz by (simp add: self_def BytesIO_def)
  ultimately show ?thesis by blast
qed

text \<open>
  The outer loop with the slice time and the event count read; every event of a slice has
  the slice time, which is an integer below \<open>2 ^ 32\<close>.
\<close>

lemma events_loop_Suc:
  "events_loop (Suc n) f =
     (case slice_loop (nat (le_uint (take 2 (drop 4 (remaining f)))))
             (Finite (of_int (le_uint (take 4 (remaining f))))) (advance 6 f) of
        (evs, Some e, f2) \<Rightarrow> (evs, Some e, f2)
      | (evs, None, f2) \<Rightarrow>
          (case events_loop n f2 of (evs2, r, f3) \<Rightarrow> (evs @ evs2, r, f3)))"
  using read_integer_advance [of 2]
  by (simp add: bind_def read_float_4 remaining_advance advance_advance return_def)

lemma slice_loop_time:
  assumes "ev \<in> set (fst (slice_loop n t f))"
  shows "time (base ev) = t"
proof -
  from slice_loop_mem [OF assms] obtain g g' where r: "read_event t g = (Inr ev, g')" by blast
  obtain sz cl ty drv
    where u: "unpack_header (le_uint (take 4 (remaining g))) = (sz, cl, ty, drv)"
    by (cases "unpack_header (le_uint (take 4 (remaining g)))") auto
  from r have "new_event (EVENT_TYPES_get (cl, ty) ClsUnknownEvent)
             \<lparr>event_class = cl, event_type = ty, time = t,
              driver = (if drv \<noteq> 255 then Some drv else None),
              size_ev = sz, data = BytesIO (take (nat sz) (drop 5 (remaining g)))\<rparr> = Inr ev"
    by (simp add: read_event_eq u)
  from new_event_base [OF this] show ?thesis by simp
qed

lemma le_uint_4: "le_uint (take 4 bs) < 2 ^ 32"
proof -
  have "le_uint (take 4 bs) < 256 ^ length (take 4 bs)" by (rule le_uint_bound)
  also have "\<dots> \<le> (256::int) ^ 4" by (rule power_increasing) simp_all
  finally show ?thesis by simp
qed

lemma events_loop_time:
  "ev \<in> set (fst (events_loop n f)) \<Longrightarrow>
     \<exists>v. 0 \<le> v \<and> v < 2 ^ 32 \<and> time (base ev) = Finite (of_int v)"
proof (induction n arbitrary: f)
  case 0 then show ?case by simp
next
  case (Suc n)
  define t where "t = Finite (of_int (le_uint (take 4 (remaining f))))"
  define c where "c = nat (le_uint (take 2 (drop 4 (remaining f))))"
  obtain evs q f2 where l: "slice_loop c t (advance 6 f) = (evs, q, f2)"
    by (cases "slice_loop c t (advance 6 f)") auto
  obtain evs2 q2 f3 where l2: "events_loop n f2 = (evs2, q2, f3)"
    by (cases "events_loop n f2") auto
  from Suc.prems l l2
  have "ev \<in> set (fst (slice_loop c t (advance 6 f))) \<or> ev \<in> set (fst (events_loop n f2))"
    unfolding events_loop_Suc t_def [symmetric] c_def [symmetric] by (cases q) auto
  then show ?case
  proof
    assume "ev \<in> set (fst (slice_loop c t (advance 6 f)))"
    then have "time (base ev) = t" by (rule slice_loop_time)
    with le_uint_nonneg [of "take 4 (remaining f)"] le_uint_4 [of "remaining f"]
    show ?thesis unfolding t_def by blast
  next
    assume "ev \<in> set (fst (events_loop n f2))"
    then show ?thesis by (rule Suc.IH)
  qed
qed

subsection \<open>The driver record\<close>

text \<open>
  No reader changes the buffer. The two times of a driver are the last two reads of its
  record.
\<close>

lemma read_buf: "read n f = (r, g) \<Longrightarrow> buf g = buf f"
  by (auto simp: read_def read_raw_def Let_def)

lemma read_integer_buf: "read_integer n s f = (r, g) \<Longrightarrow> buf g = buf f"
  by (auto simp: read_integer_def bind_def return_def read_def read_raw_def Let_def)

lemma read_string_buf: "read_string n f = (r, g) \<Longrightarrow> buf g = buf f"
  by (auto simp: read_string_def bind_def read_def read_raw_def Let_def case_raise_return)

lemma read_bytes_as_string_buf: "read_bytes_as_string n f = (r, g) \<Longrightarrow> buf g = buf f"
  by (auto simp: read_bytes_as_string_def bind_def read_def read_raw_def Let_def
      case_raise_return)

lemma read_driver_times:
  assumes "read_driver f = (Inr d, g)"
  shows "\<exists>h. buf h = buf f \<and> g = advance 8 h
     \<and> time_enter d = Finite (of_int (le_uint (take 4 (remaining h))))
     \<and> time_exit d = Finite (of_int (le_uint (take 4 (drop 4 (remaining h)))))"
proof -
  from assms obtain v1 f1 v2 f2 v3 f3 v4 f4 v5 f5 v6 f6 v7 f7 v8 f8 where
    r: "read_integer 1 False f = (Inr v1, f1)" "read_string 1 f1 = (Inr v2, f2)"
      "read_string 1 f2 = (Inr v3, f3)" "read_string 2 f3 = (Inr v4, f4)"
      "read_string 2 f4 = (Inr v5, f5)" "read_string 2 f5 = (Inr v6, f6)"
      "read_bytes_as_string 32 f6 = (Inr v7, f7)" "read 48 f7 = (Inr v8, f8)"
    and t: "time_enter d = Finite (of_int (le_uint (take 4 (remaining f8))))"
      "time_exit d = Finite (of_int (le_uint (take 4 (drop 4 (remaining f8)))))"
      "g = advance 8 f8"
    unfolding read_driver_def bind_Inr_iff return_Inr_iff read_float_4
    by (auto simp: remaining_advance advance_advance)
  have "buf f8 = buf f"
    using r read_integer_buf read_string_buf read_bytes_as_string_buf read_buf by metis
  with t show ?thesis by blast
qed

lemma advance_inside:
  assumes "g = advance k h" "pos g < length (buf h)"
  shows "remaining h = drop (pos g - k) (buf h) \<and> k \<le> pos g"
  using assms by (auto simp: advance_def remaining_def min_def split: if_splits)

lemma read_driver_times_at:
  assumes "read_driver f = (Inr d, g)" "pos g < length (buf f)"
  shows "time_enter d = Finite (of_int (le_uint (take 4 (drop (pos g - 8) (buf f)))))
     \<and> time_exit d = Finite (of_int (le_uint (take 4 (drop (pos g - 4) (buf f)))))"
proof -
  from read_driver_times [OF assms(1)] obtain h where
    h: "buf h = buf f" "g = advance 8 h"
      "time_enter d = Finite (of_int (le_uint (take 4 (remaining h))))"
      "time_exit d = Finite (of_int (le_uint (take 4 (drop 4 (remaining h)))))"
    by blast
  from advance_inside [OF h(2)] assms(2) h(1)
  have r: "remaining h = drop (pos g - 8) (buf f)" and k: "8 \<le> pos g" by simp_all
  from k have "4 + (pos g - 8) = pos g - 4" by simp
  with h r show ?thesis by simp
qed

lemma read_driver_buf:
  assumes "read_driver f = (Inr d, g)"
  shows "buf g = buf f"
  using read_driver_times [OF assms] by (auto simp: advance_def)

lemma sample_driver_read:
  "read_driver (BytesIO sample_driver_bytes) =
     (Inr sample_driver, \<lparr>buf = sample_driver_bytes, pos = 98\<rparr>)"
  by code_simp

section \<open>The telemetry flags that share a bit\<close>

text \<open>
  Claim C10. For every telemetry payload that decodes (63 bytes or more), the front-left
  part flag equals the warning-light flag and the front-right part flag equals the
  following flag, since each pair is read from the same bit (22 and 23) of the second
  packed word; the rear-left and rear-right part flags are bits 0 and 1 of the
  acceleration byte, that is bits 24 and 25 of that word.
\<close>

theorem telemetry_shared_bits:
  assumes "63 \<le> length (remaining (data self))"
  shows "\<exists>ev. TelemetryEvent_post_init self = Inr ev
     \<and> dpart_fl ev = warning_light ev \<and> dpart_fr ev = following ev
     \<and> dpart_rl ev = bit (acceleration ev) 0 \<and> dpart_rr ev = bit (acceleration ev) 1
     \<and> dpart_fl ev = bit (le_uint (take 4 (drop 4 (remaining (data self))))) 22
     \<and> dpart_fr ev = bit (le_uint (take 4 (drop 4 (remaining (data self))))) 23
     \<and> dpart_rl ev = bit (le_uint (take 4 (drop 4 (remaining (data self))))) 24
     \<and> dpart_rr ev = bit (le_uint (take 4 (drop 4 (remaining (data self))))) 25"
proof -
  define info2 where "info2 = le_uint (take 4 (drop 4 (remaining (data self))))"
  from telemetry_fields [OF assms] obtain ev where
    ev: "TelemetryEvent_post_init self = Inr ev"
    and acc: "acceleration ev = take_bit 8 (drop_bit 24 info2)"
    and fol: "following ev = bit info2 23"
    and wl: "warning_light ev = bit info2 22"
    and fl: "dpart_flags ev =
              map (bit info2) [7, 6, 5, 4, 3, 2, 1, 0, 31, 30, 29, 28, 27, 26, 25, 24, 23, 22]"
    by (auto simp: Let_def info2_def)
  from fl have parts: "dpart_rr ev = bit info2 25" "dpart_rl ev = bit info2 24"
    "dpart_fr ev = bit info2 23" "dpart_fl ev = bit info2 22"
    by (simp_all add: dpart_flags_def)
  have "bit (acceleration ev) 0 = bit info2 24" "bit (acceleration ev) 1 = bit info2 25"
    unfolding acc by (simp_all add: bit_simps)
  with ev fol wl parts show ?thesis
    unfolding info2_def [symmetric] by simp
qed

theorem telemetry_shared_bits_witness:
  "63 \<le> length (remaining (data telemetry_self))
   \<and> (\<exists>ev. TelemetryEvent_post_init telemetry_self = Inr ev
     \<and> dpart_fl ev = warning_light ev \<and> dpart_fr ev = following ev
     \<and> dpart_rl ev = bit (acceleration ev) 0 \<and> dpart_rr ev = bit (acceleration ev) 1)"
proof -
  have h: "63 \<le> length (remaining (data telemetry_self))"
    by (simp add: telemetry_self_def telemetry_payload_def BytesIO_def remaining_def)
  from telemetry_shared_bits [OF h] show ?thesis
    using h by blast
qed

section \<open>The packed event header\<close>

text \<open>
  Claim C2. For every class in 0..7, type in 0..63, size in 0..511 and driver in 0..255,
  packing the four fields into a header word (driver in bits 0 to 7, size in bits 8 to 16,
  type in bits 17 to 22, class in bits 29 to 31) and unpacking it with the four assignments
  of \<open>Replay.events\<close> gives the four fields back; the packed word fits 32 bits.
  \<open>unpack_header\<close> returns the fields in the order of the source: size, class, type, driver.
\<close>

theorem header_roundtrip:
  assumes "0 \<le> cl" "cl < 8" "0 \<le> ty" "ty < 64" "0 \<le> sz" "sz < 512" "0 \<le> drv" "drv < 256"
  shows "unpack_header (pack_header cl ty sz drv) = (sz, cl, ty, drv)
         \<and> 0 \<le> pack_header cl ty sz drv \<and> pack_header cl ty sz drv < 2 ^ 32"
proof -
  have c: "\<And>m. bit cl m \<Longrightarrow> m < 3" using bit_bounded [of cl 3] assms by simp
  have t: "\<And>m. bit ty m \<Longrightarrow> m < 6" using bit_bounded [of ty 6] assms by simp
  have s: "\<And>m. bit sz m \<Longrightarrow> m < 9" using bit_bounded [of sz 9] assms by simp
  have d: "\<And>m. bit drv m \<Longrightarrow> m < 8" using bit_bounded [of drv 8] assms by simp
  have 1: "drop_bit 8 (pack_header cl ty sz drv) AND 0x1ff = sz"
    unfolding pack_header_def and_511
    by (rule bit_eqI) (auto simp: bit_simps dest: c t s d)
  have 2: "drop_bit 29 (pack_header cl ty sz drv) = cl"
    unfolding pack_header_def
    by (rule bit_eqI) (auto simp: bit_simps dest: c t s d)
  have 3: "drop_bit 17 (pack_header cl ty sz drv) AND 0x03f = ty"
    unfolding pack_header_def and_63
    by (rule bit_eqI) (auto simp: bit_simps dest: c t s d)
  have 4: "pack_header cl ty sz drv AND 0x0ff = drv"
    unfolding pack_header_def and_255
    by (rule bit_eqI) (auto simp: bit_simps dest: c t s d)
  have u: "unpack_header (pack_header cl ty sz drv) = (sz, cl, ty, drv)"
    by (simp only: unpack_header_def Let_def 1 2 3 4)
  have "take_bit 32 (pack_header cl ty sz drv) = pack_header cl ty sz drv"
    unfolding pack_header_def
    by (rule bit_eqI) (auto simp: bit_simps dest: c t s d)
  then have hi: "pack_header cl ty sz drv < 2 ^ 32"
    using take_bit_int_less_exp [of 32 "pack_header cl ty sz drv"] by simp
  have lo: "0 \<le> pack_header cl ty sz drv"
    using assms by (simp add: pack_header_def)
  from u hi lo show ?thesis by simp
qed

theorem header_roundtrip_witness:
  "pack_header 3 48 300 255 = 0x60612CFF
   \<and> unpack_header (pack_header 3 48 300 255) = (300, 3, 48, 255)"
  using header_roundtrip [of 3 48 300 255] by (simp add: pack_header_def)

section \<open>The session-info byte\<close>

text \<open>
  Claim C4. Decoding the session-info byte \<open>b\<close> maps its low nibble to the session type by
  the ranges 0 to TestDay, 1..4 to Practice, 5..8 to Qualifying, 9 to Warmup, 10..13 to
  Race, takes the private-session flag from bit 7, and raises (the \<open>ValueError\<close> for an
  unknown session type) exactly when the nibble is 14 or 15.
\<close>

theorem session_info_decoding:
  assumes "remaining f = b # rest"
  shows "fst (read_session_info f) =
     (let n = take_bit 4 (uint b); p = bit b 7
      in if n = 0 then Inr (TEST_DAY, p)
         else if n \<le> 4 then Inr (PRACTICE, p)
         else if n \<le> 8 then Inr (QUALIFYING, p)
         else if n = 9 then Inr (WARMUP, p)
         else if n \<le> 13 then Inr (RACE, p)
         else Inl (ValueError n))
   \<and> ((\<exists>e. fst (read_session_info f) = Inl e) \<longleftrightarrow>
        take_bit 4 (uint b) = 14 \<or> take_bit 4 (uint b) = 15)"
proof -
  define n where "n = take_bit 4 (uint b)"
  have x: "le_uint (take 1 (remaining f)) = uint b" using assms by simp
  have 1: "fst (read_session_info f) =
     (let p = bit b 7
      in if n = 0 then Inr (TEST_DAY, p)
         else if n \<le> 4 then Inr (PRACTICE, p)
         else if n \<le> 8 then Inr (QUALIFYING, p)
         else if n = 9 then Inr (WARMUP, p)
         else if n \<le> 13 then Inr (RACE, p)
         else Inl (ValueError n))"
    unfolding read_session_info_value x by (simp add: n_def Let_def bit_uint_iff)
  have "n < 2 ^ 4" unfolding n_def by (rule take_bit_int_less_exp)
  then have "n < 16" by simp
  then have 2: "(\<exists>e. fst (read_session_info f) = Inl e) \<longleftrightarrow> n = 14 \<or> n = 15"
    unfolding 1 by (auto simp: Let_def)
  from 1 2 show ?thesis by (simp add: n_def Let_def)
qed

theorem session_info_decoding_witness:
  "fst (read_session_info (BytesIO [0x00])) = Inr (TEST_DAY, False)
   \<and> fst (read_session_info (BytesIO [0x8A])) = Inr (RACE, True)
   \<and> fst (read_session_info (BytesIO [0x0E])) = Inl (ValueError 14)
   \<and> fst (read_session_info (BytesIO [0x8F])) = Inl (ValueError 15)"
proof -
  have r: "\<And>b. remaining (BytesIO [b]) = b # []" by (simp add: BytesIO_def remaining_def)
  show ?thesis
    using session_info_decoding [OF r [of "0x00"]] session_info_decoding [OF r [of "0x8A"]]
      session_info_decoding [OF r [of "0x0E"]] session_info_decoding [OF r [of "0x8F"]]
    by (simp add: Let_def bit_simps)
qed

section \<open>Events of an unmapped class and type\<close>

text \<open>
  Claim C8, as the code has it. When the class and type unpacked from the header word are
  not a key of the dispatch table, the turn of the loop raises nothing and yields an Unknown
  event; its \<open>data\<close> is a fresh stream, at position 0, over the payload bytes as they stand
  in the file (nothing is read from it). The payload has \<open>size\<close> bytes when that many
  follow the header word and the reserved byte; otherwise it is the bytes that are left,
  fewer than \<open>size\<close>. Every event a replay yields whose class and type are not in the
  table is such an Unknown event, over at most \<open>size\<close> bytes.
\<close>

theorem unmapped_is_unknown:
  "(unpack_header (le_uint (take 4 (remaining f))) = (sz, cl, ty, drv) \<longrightarrow>
    map_of EVENT_TYPES (cl, ty) = None \<longrightarrow>
      read_event slice_time f =
        (Inr (Unknown \<lparr>event_class = cl, event_type = ty, time = slice_time,
                       driver = (if drv \<noteq> 255 then Some drv else None), size_ev = sz,
                       data = BytesIO (take (nat sz) (drop 5 (remaining f)))\<rparr>),
         advance (5 + nat sz) f)
      \<and> (if nat sz \<le> length (drop 5 (remaining f))
          then int (length (take (nat sz) (drop 5 (remaining f)))) = sz
          else take (nat sz) (drop 5 (remaining f)) = drop 5 (remaining f)
               \<and> int (length (drop 5 (remaining f))) < sz))
   \<and> (ev \<in> set (fst (fst (events replay))) \<longrightarrow>
      map_of EVENT_TYPES (event_class (base ev), event_type (base ev)) = None \<longrightarrow>
        (\<exists>e. ev = Unknown e \<and> pos (data e) = 0 \<and> int (length (buf (data e))) \<le> size_ev e))"
proof (intro conjI impI)
  assume u: "unpack_header (le_uint (take 4 (remaining f))) = (sz, cl, ty, drv)"
    and m: "map_of EVENT_TYPES (cl, ty) = None"
  have sz: "0 \<le> sz"
    using unpack_header_nonneg [of "le_uint (take 4 (remaining f))"] u by simp
  show "read_event slice_time f =
        (Inr (Unknown \<lparr>event_class = cl, event_type = ty, time = slice_time,
                       driver = (if drv \<noteq> 255 then Some drv else None), size_ev = sz,
                       data = BytesIO (take (nat sz) (drop 5 (remaining f)))\<rparr>),
         advance (5 + nat sz) f)"
    using u m by (simp add: read_event_eq EVENT_TYPES_get_def)
  show "if nat sz \<le> length (drop 5 (remaining f))
          then int (length (take (nat sz) (drop 5 (remaining f)))) = sz
          else take (nat sz) (drop 5 (remaining f)) = drop 5 (remaining f)
               \<and> int (length (drop 5 (remaining f))) < sz"
    using sz by auto
next
  assume "ev \<in> set (fst (fst (events replay)))"
  from events_mem [OF this] obtain t g g' where r: "read_event t g = (Inr ev, g')" by blast
  assume "map_of EVENT_TYPES (event_class (base ev), event_type (base ev)) = None"
  with r show "\<exists>e. ev = Unknown e \<and> pos (data e) = 0 \<and> int (length (buf (data e))) \<le> size_ev e"
    by (rule read_event_unmapped)
qed

theorem unmapped_is_unknown_witness:
  "read_event (Finite 0) unknown_stream =
     (Inr (Unknown \<lparr>event_class = 1, event_type = 0, time = Finite 0, driver = None,
                    size_ev = 3, data = BytesIO [7, 8, 9]\<rparr>),
      \<lparr>buf = [0xFF, 0x03, 0x00, 0x20, 0x00, 7, 8, 9], pos = 8\<rparr>)
   \<and> read_event (Finite 1) truncated_stream =
     (Inr (Unknown \<lparr>event_class = 1, event_type = 0, time = Finite 1, driver = None,
                    size_ev = 3, data = BytesIO [7]\<rparr>),
      \<lparr>buf = [0xFF, 0x03, 0x00, 0x20, 0x00, 7], pos = 6\<rparr>)
   \<and> Unknown sample_unknown \<in> set (fst (fst (events sample_replay)))
   \<and> map_of EVENT_TYPES (event_class sample_unknown, event_type sample_unknown) = None
   \<and> pos (data sample_unknown) = 0 \<and> int (length (buf (data sample_unknown))) \<le> 3"
proof -
  have u: "unpack_header (le_uint (take 4 (remaining unknown_stream))) = (3, 1, 0, 255)"
    by (simp add: unknown_stream_def BytesIO_def remaining_def unpack_header_def)
  have v: "unpack_header (le_uint (take 4 (remaining truncated_stream))) = (3, 1, 0, 255)"
    by (simp add: truncated_stream_def BytesIO_def remaining_def unpack_header_def)
  have m: "map_of EVENT_TYPES (1::int, 0::int) = None"
    by (simp add: EVENT_TYPES_def)
  have s: "Unknown sample_unknown \<in> set (fst (fst (events sample_replay)))"
    by (simp add: sample_events)
  have k: "map_of EVENT_TYPES (event_class (base (Unknown sample_unknown)),
             event_type (base (Unknown sample_unknown))) = None"
    by (simp add: sample_unknown_def EVENT_TYPES_def)
  have 1: "read_event (Finite 0) unknown_stream =
     (Inr (Unknown \<lparr>event_class = 1, event_type = 0, time = Finite 0, driver = None,
                    size_ev = 3, data = BytesIO [7, 8, 9]\<rparr>),
      \<lparr>buf = [0xFF, 0x03, 0x00, 0x20, 0x00, 7, 8, 9], pos = 8\<rparr>)"
    using unmapped_is_unknown [where f = unknown_stream and sz = 3 and cl = 1 and ty = 0
        and drv = 255 and slice_time = "Finite 0"] u m
    by (simp add: unknown_stream_def BytesIO_def remaining_def advance_def)
  have 2: "read_event (Finite 1) truncated_stream =
     (Inr (Unknown \<lparr>event_class = 1, event_type = 0, time = Finite 1, driver = None,
                    size_ev = 3, data = BytesIO [7]\<rparr>),
      \<lparr>buf = [0xFF, 0x03, 0x00, 0x20, 0x00, 7], pos = 6\<rparr>)"
    using unmapped_is_unknown [where f = truncated_stream and sz = 3 and cl = 1 and ty = 0
        and drv = 255 and slice_time = "Finite 1"] v m
    by (simp add: truncated_stream_def BytesIO_def remaining_def advance_def)
  from unmapped_is_unknown [where ev = "Unknown sample_unknown" and replay = sample_replay] s k
  have 3: "pos (data sample_unknown) = 0
     \<and> int (length (buf (data sample_unknown))) \<le> size_ev sample_unknown"
    by auto
  from 1 2 3 s k show ?thesis by (simp add: sample_unknown_def)
qed

text \<open>
  Claim C8 as stated fails: on a stream that ends one byte into a payload of declared size
  3, the class and type (1, 0) are not in the table and the Unknown event yielded holds the
  one byte, not three.
\<close>

theorem unmapped_truncated_counterexample:
  "unpack_header (le_uint (take 4 (remaining truncated_stream))) = (3, 1, 0, 255)
   \<and> map_of EVENT_TYPES (1::int, 0::int) = None
   \<and> map_sum id (size_ev \<circ> base) (fst (read_event (Finite 0) truncated_stream)) = Inr 3
   \<and> map_sum id (remaining \<circ> data \<circ> base) (fst (read_event (Finite 0) truncated_stream))
       = Inr [7]"
  by (simp add: read_event_eq truncated_stream_def BytesIO_def remaining_def
      unpack_header_def EVENT_TYPES_get_def EVENT_TYPES_def)

section \<open>Reads past the end of the data\<close>




section \<open>The gear of a telemetry event\<close>

text \<open>
  Claim C5. The dispatch table sends exactly class 0 with the types 7 to 16 to the
  telemetry class; the telemetry decoder sets the gear to the event type minus 8; so every
  telemetry event that a replay yields has class 0, a type in 7..16 and a gear in -1..8.
\<close>

theorem telemetry_gear:
  "(EVENT_TYPES_get (c, t) ClsUnknownEvent = ClsTelemetryEvent \<longleftrightarrow> c = 0 \<and> 7 \<le> t \<and> t \<le> 16)
   \<and> (TelemetryEvent_post_init self = Inr tel \<longrightarrow> gear tel = event_type self - 8)
   \<and> (Telemetry tel \<in> set (fst (fst (events replay))) \<longrightarrow>
        gear tel = event_type tel - 8 \<and> event_class tel = 0
        \<and> 7 \<le> event_type tel \<and> event_type tel \<le> 16
        \<and> - 1 \<le> gear tel \<and> gear tel \<le> 8)"
proof (intro conjI impI)
  show "EVENT_TYPES_get (c, t) ClsUnknownEvent = ClsTelemetryEvent \<longleftrightarrow> c = 0 \<and> 7 \<le> t \<and> t \<le> 16"
    by (rule table_telemetry)
next
  assume "TelemetryEvent_post_init self = Inr tel"
  then have "new_event ClsTelemetryEvent self = Inr (Telemetry tel)" by simp
  from new_event_Telemetry [OF this] show "gear tel = event_type self - 8" by simp
next
  assume "Telemetry tel \<in> set (fst (fst (events replay)))"
  then have "Telemetry tel \<in> set (fst (events_loop (nat (slice_count (info replay))) (vcr_file replay)))"
    by (simp add: events_def split: prod.splits)
  from events_loop_mem [OF this] obtain t g g' where "read_event t g = (Inr (Telemetry tel), g')"
    by blast
  from read_event_Telemetry [OF this]
  have r: "gear tel = event_type tel - 8 \<and> event_class tel = 0
         \<and> 7 \<le> event_type tel \<and> event_type tel \<le> 16" .
  then show "gear tel = event_type tel - 8" "event_class tel = 0" "7 \<le> event_type tel"
    "event_type tel \<le> 16" "- 1 \<le> gear tel" "gear tel \<le> 8"
    by simp_all
qed

section \<open>The driver of an event\<close>

text \<open>
  Claim C6. The driver of an event that the loop yields is \<open>None\<close> when bits 0 to 7 of the
  header word are 255, and that value otherwise; so no event a replay yields has the driver
  255: its driver is \<open>None\<close> or an integer in 0..254.
\<close>

theorem driver_255_is_None:
  "(read_event slice_time f = (Inr ev, g) \<longrightarrow>
      driver (base ev) =
        (let driver_id = take_bit 8 (le_uint (take 4 (remaining f)))
         in if driver_id = 255 then None else Some driver_id))
   \<and> (ev \<in> set (fst (fst (events replay))) \<longrightarrow>
        driver (base ev) \<noteq> Some 255
        \<and> (driver (base ev) = None \<or> (\<exists>d. driver (base ev) = Some d \<and> 0 \<le> d \<and> d \<le> 254)))"
proof -
  have one: "driver (base ev) =
        (let driver_id = take_bit 8 (le_uint (take 4 (remaining f)))
         in if driver_id = 255 then None else Some driver_id)"
    if a: "read_event slice_time f = (Inr ev, g)" for slice_time f g
  proof -
    obtain sz cl ty drv
      where u: "unpack_header (le_uint (take 4 (remaining f))) = (sz, cl, ty, drv)"
      by (cases "unpack_header (le_uint (take 4 (remaining f)))") auto
    then have drv: "drv = take_bit 8 (le_uint (take 4 (remaining f)))"
      by (simp add: unpack_header_def and_255)
    from a have "new_event (EVENT_TYPES_get (cl, ty) ClsUnknownEvent)
             \<lparr>event_class = cl, event_type = ty, time = slice_time,
              driver = (if drv \<noteq> 255 then Some drv else None),
              size_ev = sz, data = BytesIO (take (nat sz) (drop 5 (remaining f)))\<rparr> = Inr ev"
      by (simp add: read_event_eq u)
    from new_event_base [OF this]
    have "driver (base ev) = (if drv \<noteq> 255 then Some drv else None)" by simp
    then show ?thesis by (simp add: drv Let_def)
  qed
  have two: "driver (base ev) \<noteq> Some 255
        \<and> (driver (base ev) = None \<or> (\<exists>d. driver (base ev) = Some d \<and> 0 \<le> d \<and> d \<le> 254))"
    if "ev \<in> set (fst (fst (events replay)))"
  proof -
    from that
    have "ev \<in> set (fst (events_loop (nat (slice_count (info replay))) (vcr_file replay)))"
      by (simp add: events_def split: prod.splits)
    from events_loop_mem [OF this] obtain t h h' where "read_event t h = (Inr ev, h')"
      by blast
    from one [OF this] have d: "driver (base ev) =
        (let driver_id = take_bit 8 (le_uint (take 4 (remaining h)))
         in if driver_id = 255 then None else Some driver_id)" .
    have "take_bit 8 (le_uint (take 4 (remaining h))) < 2 ^ 8"
      by (rule take_bit_int_less_exp)
    then have "take_bit 8 (le_uint (take 4 (remaining h))) \<le> 255" by simp
    moreover have "0 \<le> take_bit 8 (le_uint (take 4 (remaining h)))" by simp
    ultimately show ?thesis unfolding d Let_def by auto
  qed
  from one two show ?thesis by blast
qed


theorem telemetry_gear_witness:
  "Telemetry sample_telemetry \<in> set (fst (fst (events sample_replay)))
   \<and> event_type sample_telemetry = 11 \<and> gear sample_telemetry = 3"
  using telemetry_gear [where tel = sample_telemetry and replay = sample_replay]
  by (simp add: sample_events) (simp add: sample_telemetry_def)

theorem driver_255_is_None_witness:
  "read_event (Finite 0) unknown_stream =
     (Inr (Unknown \<lparr>event_class = 1, event_type = 0, time = Finite 0, driver = None,
                    size_ev = 3, data = BytesIO [7, 8, 9]\<rparr>), advance 8 unknown_stream)
   \<and> take_bit 8 (le_uint (take 4 (remaining unknown_stream))) = 255
   \<and> Telemetry sample_telemetry \<in> set (fst (fst (events sample_replay)))
   \<and> driver (base (Telemetry sample_telemetry)) = Some 3"
proof -
  have r: "read_event (Finite 0) unknown_stream =
     (Inr (Unknown \<lparr>event_class = 1, event_type = 0, time = Finite 0, driver = None,
                    size_ev = 3, data = BytesIO [7, 8, 9]\<rparr>), advance 8 unknown_stream)"
    by (simp add: read_event_eq unknown_stream_def BytesIO_def remaining_def unpack_header_def
        EVENT_TYPES_get_def EVENT_TYPES_def)
  have d: "take_bit 8 (le_uint (take 4 (remaining unknown_stream))) = 255"
    by (simp add: unknown_stream_def BytesIO_def remaining_def)
  have m: "Telemetry sample_telemetry \<in> set (fst (fst (events sample_replay)))"
    by (simp add: sample_events)
  from driver_255_is_None [where ev = "Telemetry sample_telemetry" and replay = sample_replay] m
  have "driver (base (Telemetry sample_telemetry)) \<noteq> Some 255" by blast
  moreover have "driver (base (Telemetry sample_telemetry)) = Some 3"
    by (simp add: sample_telemetry_def ReplayEvent.truncate_def)
  moreover
  from driver_255_is_None [where ev = "Unknown \<lparr>event_class = 1, event_type = 0, time = Finite 0,
      driver = None, size_ev = 3, data = BytesIO [7, 8, 9]\<rparr>" and f = unknown_stream
      and slice_time = "Finite 0" and g = "advance 8 unknown_stream"] r
  have "driver (base (Unknown \<lparr>event_class = 1, event_type = 0, time = Finite 0,
      driver = None, size_ev = 3, data = BytesIO [7, 8, 9]\<rparr>)) =
        (let driver_id = take_bit 8 (le_uint (take 4 (remaining unknown_stream)))
         in if driver_id = 255 then None else Some driver_id)" by blast
  ultimately show ?thesis using r d m by simp
qed

section \<open>The two phases of ReplayInfo\<close>

text \<open>
  Claim C9. The info that \<open>_read_replay_info\<close> returns has \<open>slice_count\<close>,
  \<open>event_count_total\<close>, \<open>time_start\<close> and \<open>time_end\<close> zero. The constructor of
  \<open>Replay\<close> sets each of the four once, from the 16 bytes that follow the driver list, and
  changes no other field of it. Iterating the events leaves the info (and the drivers) as
  they are: only the position of the file moves.
\<close>

theorem replay_info_two_phase:
  "(read_replay_info f = (Inr i0, f0) \<longrightarrow>
      slice_count i0 = 0 \<and> event_count_total i0 = 0
      \<and> time_start i0 = Finite 0 \<and> time_end i0 = Finite 0)
   \<and> (Replay_init f = Inr r \<longrightarrow>
        (\<exists>i1 f1 ds f2.
           read_replay_info f = (Inr i1, f1) \<and> read_driver_list f1 = (Inr ds, f2)
           \<and> drivers r = ds \<and> vcr_file r = advance 16 f2
           \<and> info r =
               i1\<lparr>slice_count := le_uint (take 4 (remaining f2)),
                   event_count_total := le_uint (take 4 (drop 4 (remaining f2))),
                   time_start := Finite (of_int (le_uint (take 4 (drop 8 (remaining f2))))),
                   time_end := Finite (of_int (le_uint (take 4 (drop 12 (remaining f2)))))\<rparr>))
   \<and> info (snd (events r)) = info r \<and> drivers (snd (events r)) = drivers r"
proof (intro conjI impI)
  assume "read_replay_info f = (Inr i0, f0)"
  then have "slice_count i0 = 0 \<and> event_count_total i0 = 0
      \<and> time_start i0 = Finite 0 \<and> time_end i0 = Finite 0"
    by (auto simp: read_replay_info_def bind_Inr_iff return_Inr_iff Let_def split: prod.splits)
  then show "slice_count i0 = 0" "event_count_total i0 = 0"
    "time_start i0 = Finite 0" "time_end i0 = Finite 0" by simp_all
next
  assume "Replay_init f = Inr r"
  then show "\<exists>i1 f1 ds f2.
           read_replay_info f = (Inr i1, f1) \<and> read_driver_list f1 = (Inr ds, f2)
           \<and> drivers r = ds \<and> vcr_file r = advance 16 f2
           \<and> info r =
               i1\<lparr>slice_count := le_uint (take 4 (remaining f2)),
                   event_count_total := le_uint (take 4 (drop 4 (remaining f2))),
                   time_start := Finite (of_int (le_uint (take 4 (drop 8 (remaining f2))))),
                   time_end := Finite (of_int (le_uint (take 4 (drop 12 (remaining f2)))))\<rparr>"
    by (auto simp: Replay_init_def finish_Inr_iff bind_Inr_iff return_Inr_iff
        read_slices_header_eq)
next
  show "info (snd (events r)) = info r" by (simp add: events_def split: prod.splits)
  show "drivers (snd (events r)) = drivers r" by (simp add: events_def split: prod.splits)
qed

theorem replay_info_two_phase_witness:
  "Replay_init (BytesIO sample_file) = Inr sample_replay
   \<and> slice_count (info sample_replay) = 2 \<and> event_count_total (info sample_replay) = 2
   \<and> time_start (info sample_replay) = Finite 0 \<and> time_end (info sample_replay) = Finite 16
   \<and> (\<exists>i1 f1. read_replay_info (BytesIO sample_file) = (Inr i1, f1) \<and> slice_count i1 = 0
        \<and> event_count_total i1 = 0 \<and> time_start i1 = Finite 0 \<and> time_end i1 = Finite 0)
   \<and> info (snd (events sample_replay)) = sample_info"
proof -
  from replay_info_two_phase [where f = "BytesIO sample_file" and r = sample_replay] sample_init
  obtain i1 f1 where 1: "read_replay_info (BytesIO sample_file) = (Inr i1, f1)"
    and 2: "info (snd (events sample_replay)) = info sample_replay"
    by blast
  from replay_info_two_phase [where f = "BytesIO sample_file" and ?i0.0 = i1 and ?f0.0 = f1] 1
  have "slice_count i1 = 0 \<and> event_count_total i1 = 0 \<and> time_start i1 = Finite 0 \<and> time_end i1 = Finite 0"
    by blast
  with 1 2 sample_init show ?thesis
    by (auto simp: sample_replay_def sample_info_def)
qed

section \<open>The telemetry record\<close>

text \<open>
  Claim C3, as the code has it. For every telemetry payload of 63 bytes or more the decoder
  returns an event and takes from the first packed word steer/yaw (bits 0 to 6), the horn
  flag (bit 10), throttle (bits 11 to 16), the in-pit flag (bit 17) and the engine rpm (bits
  18 and up); from the second packed word the acceleration byte (bits 24 to 31), following
  (bit 23), warning light (bit 22), driver visible (bit 21), head light (bit 20), the
  current driver (bits 18 and 19) and eighteen detachable-part and debris flags (bits 7 to
  0, 31 to 28 and 27 to 22); it skips the 5 bytes of the speed and 25 more; it splits byte 38
  into the traction-control level (the two high bits) and the brakes (the six low bits); and
  it reads the six floats of position and rotation from the 24 bytes that follow, each as a
  binary32 pattern. It leaves the payload stream 63 bytes further. For every payload of
  fewer than 63 bytes the decoder raises \<open>struct.error\<close>.
\<close>

theorem telemetry_decoding:
  "(63 \<le> length (remaining (data self)) \<longrightarrow>
     (\<exists>ev. TelemetryEvent_post_init self = Inr ev
     \<and> (let d = remaining (data self);
             info1 = le_uint (take 4 d);
             info2 = le_uint (take 4 (drop 4 d));
             tc_brakes = le_uint (take 1 (drop 38 d))
         in steer_yaw ev = take_bit 7 info1
          \<and> horn ev = bit info1 10
          \<and> throttle ev = take_bit 6 (drop_bit 11 info1)
          \<and> in_pit ev = bit info1 17
          \<and> engine_rpm ev = drop_bit 18 info1
          \<and> acceleration ev = take_bit 8 (drop_bit 24 info2)
          \<and> following ev = bit info2 23
          \<and> warning_light ev = bit info2 22
          \<and> driver_visible ev = bit info2 21
          \<and> head_light ev = bit info2 20
          \<and> current_driver ev = take_bit 2 (drop_bit 18 info2)
          \<and> dpart_flags ev =
              map (bit info2) [7, 6, 5, 4, 3, 2, 1, 0, 31, 30, 29, 28, 27, 26, 25, 24, 23, 22]
          \<and> tc_level ev = drop_bit 6 tc_brakes
          \<and> brakes ev = take_bit 6 tc_brakes
          \<and> pos_x ev = binary32_value (le_uint (take 4 (drop 39 d)))
          \<and> pos_y ev = binary32_value (le_uint (take 4 (drop 43 d)))
          \<and> pos_z ev = binary32_value (le_uint (take 4 (drop 47 d)))
          \<and> rot_x ev = binary32_value (le_uint (take 4 (drop 51 d)))
          \<and> rot_y ev = binary32_value (le_uint (take 4 (drop 55 d)))
          \<and> rot_z ev = binary32_value (le_uint (take 4 (drop 59 d)))
          \<and> data ev = advance 63 (data self))))
   \<and> (length (remaining (data self)) < 63 \<longrightarrow>
        TelemetryEvent_post_init self = Inl StructError)"
  using telemetry_fields [of self] telemetry_short [of self] by blast

theorem telemetry_decoding_witness:
  "63 \<le> length (remaining (data telemetry_self))
   \<and> (\<exists>ev. TelemetryEvent_post_init telemetry_self = Inr ev
        \<and> steer_yaw ev = 5 \<and> horn ev \<and> throttle ev = 33 \<and> in_pit ev \<and> engine_rpm ev = 9000
        \<and> acceleration ev = 4 \<and> tc_level ev = 1 \<and> brakes ev = 10 \<and> pos_x ev = Finite 1
        \<and> length (dpart_flags ev) = 18)
   \<and> length (remaining (data (telemetry_self\<lparr>data := BytesIO (take 62 telemetry_payload)\<rparr>))) = 62
   \<and> TelemetryEvent_post_init (telemetry_self\<lparr>data := BytesIO (take 62 telemetry_payload)\<rparr>)
       = Inl StructError"
proof -
  have h: "63 \<le> length (remaining (data telemetry_self))"
    by (simp add: telemetry_self_def telemetry_payload_def BytesIO_def remaining_def)
  have k: "length (remaining (data (telemetry_self\<lparr>data := BytesIO (take 62 telemetry_payload)\<rparr>))) = 62"
    by (simp add: telemetry_payload_def BytesIO_def remaining_def)
  from telemetry_decoding [of telemetry_self] h obtain ev where
    "TelemetryEvent_post_init telemetry_self = Inr ev"
    "steer_yaw ev = 5 \<and> horn ev \<and> throttle ev = 33 \<and> in_pit ev \<and> engine_rpm ev = 9000
        \<and> acceleration ev = 4 \<and> tc_level ev = 1 \<and> brakes ev = 10 \<and> pos_x ev = Finite 1
        \<and> length (dpart_flags ev) = 18"
    by (auto simp: Let_def telemetry_self_def telemetry_payload_def BytesIO_def remaining_def
        binary32_value_def bit_simps)
  moreover
  from telemetry_decoding [of "telemetry_self\<lparr>data := BytesIO (take 62 telemetry_payload)\<rparr>"] k
  have "TelemetryEvent_post_init (telemetry_self\<lparr>data := BytesIO (take 62 telemetry_payload)\<rparr>)
       = Inl StructError" by simp
  ultimately show ?thesis using h k by blast
qed

text \<open>
  Claim C3 as stated fails: the decoder sets eighteen detachable-part and debris flags, not
  twelve (here the front-wing flag is set and no debris flag is), and on a payload of 4
  bytes it raises.
\<close>

theorem telemetry_flags_counterexample:
  "map_sum id dpart_flags (TelemetryEvent_post_init telemetry_self) =
     Inr [False, False, False, False, False, False, False, False, False, False, False, False,
          False, True, False, False, False, False]
   \<and> map_sum id dpart_fwing (TelemetryEvent_post_init telemetry_self) = Inr True
   \<and> TelemetryEvent_post_init (telemetry_self\<lparr>data := BytesIO [0x05, 0x0C, 0xA3, 0x8C]\<rparr>)
       = Inl StructError"
  by code_simp

section \<open>The two float readers\<close>

text \<open>
  Claim C7. \<open>read_float\<close> on 4 bytes returns the float whose value is the unsigned
  little-endian integer of the bytes it gets; \<open>read_float2\<close> on 4 bytes returns the float
  whose binary32 pattern those bytes are (for a normal number: sign, significand and
  exponent as IEEE-754 defines them). They are two functions, and on the bytes
  \<open>00 00 80 3F\<close> the first gives 1065353216 and the second 1. The first reads the
  timestamps of garage and checkpoint events, the start and end times of the summary
  header (bytes 8 to 15 of it), the enter and exit times of a driver (the last two reads of
  the record: the 8 bytes before the position it ends at) and the time of a slice (its first
  4 bytes), which is the time of every event of the slice: the time of every event of a
  replay is an integer below \<open>2 ^ 32\<close>. The second reads the six position and rotation
  fields of a telemetry event.
\<close>

theorem two_float_readers:
  "read_float 4 False f =
     (Inr (Finite (of_int (le_uint (take 4 (remaining f))))), advance 4 f)
   \<and> (4 \<le> length (remaining f) \<longrightarrow>
        read_float2 4 f = (Inr (binary32_value (le_uint (take 4 (remaining f)))), advance 4 f))
   \<and> (0 < take_bit 8 (drop_bit 23 w) \<longrightarrow> take_bit 8 (drop_bit 23 w) < 255 \<longrightarrow>
        binary32_value w =
          Finite ((if bit w 31 then - 1 else 1)
                  * (1 + of_int (take_bit 23 w) / 2 ^ 23)
                  * 2 powi (take_bit 8 (drop_bit 23 w) - 127)))
   \<and> read_float 4 False (BytesIO [0x00, 0x00, 0x80, 0x3F]) =
        (Inr (Finite 1065353216), \<lparr>buf = [0x00, 0x00, 0x80, 0x3F], pos = 4\<rparr>)
   \<and> read_float2 4 (BytesIO [0x00, 0x00, 0x80, 0x3F]) =
        (Inr (Finite 1), \<lparr>buf = [0x00, 0x00, 0x80, 0x3F], pos = 4\<rparr>)
   \<and> read_float 4 False \<noteq> read_float2 4
   \<and> (\<exists>ev. GarageEvent_post_init self = Inr ev
        \<and> timestamp ev = Finite (of_int (le_uint (take 4 (remaining (data self))))))
   \<and> (\<exists>ev. CheckpointEvent_post_init self = Inr ev
        \<and> lap_or_sector_time ev = Finite (of_int (le_uint (take 4 (remaining (data self)))))
        \<and> cp_timestamp ev = Finite (of_int (le_uint (take 4 (drop 4 (remaining (data self)))))))
   \<and> (63 \<le> length (remaining (data self)) \<longrightarrow>
        (\<exists>ev. TelemetryEvent_post_init self = Inr ev
           \<and> pos_x ev = binary32_value (le_uint (take 4 (drop 39 (remaining (data self)))))
           \<and> pos_y ev = binary32_value (le_uint (take 4 (drop 43 (remaining (data self)))))
           \<and> pos_z ev = binary32_value (le_uint (take 4 (drop 47 (remaining (data self)))))
           \<and> rot_x ev = binary32_value (le_uint (take 4 (drop 51 (remaining (data self)))))
           \<and> rot_y ev = binary32_value (le_uint (take 4 (drop 55 (remaining (data self)))))
           \<and> rot_z ev = binary32_value (le_uint (take 4 (drop 59 (remaining (data self)))))))
   \<and> read_slices_header info0 f =
        (Inr (info0\<lparr>slice_count := le_uint (take 4 (remaining f)),
                    event_count_total := le_uint (take 4 (drop 4 (remaining f))),
                    time_start := Finite (of_int (le_uint (take 4 (drop 8 (remaining f))))),
                    time_end := Finite (of_int (le_uint (take 4 (drop 12 (remaining f)))))\<rparr>),
         advance 16 f)
   \<and> (read_driver f = (Inr d, g) \<longrightarrow>
        buf g = buf f
        \<and> (\<exists>h. buf h = buf f \<and> g = advance 8 h
             \<and> time_enter d = Finite (of_int (le_uint (take 4 (remaining h))))
             \<and> time_exit d = Finite (of_int (le_uint (take 4 (drop 4 (remaining h))))))
        \<and> (pos g < length (buf f) \<longrightarrow>
             time_enter d = Finite (of_int (le_uint (take 4 (drop (pos g - 8) (buf f)))))
             \<and> time_exit d = Finite (of_int (le_uint (take 4 (drop (pos g - 4) (buf f)))))))
   \<and> events_loop (Suc k) f =
        (case slice_loop (nat (le_uint (take 2 (drop 4 (remaining f)))))
                (Finite (of_int (le_uint (take 4 (remaining f))))) (advance 6 f) of
           (evs, Some e, f2) \<Rightarrow> (evs, Some e, f2)
         | (evs, None, f2) \<Rightarrow>
             (case events_loop k f2 of (evs2, r, f3) \<Rightarrow> (evs @ evs2, r, f3)))
   \<and> (ev \<in> set (fst (slice_loop k t f)) \<longrightarrow> time (base ev) = t)
   \<and> (ev \<in> set (fst (fst (events replay))) \<longrightarrow>
        (\<exists>v. 0 \<le> v \<and> v < 2 ^ 32 \<and> time (base ev) = Finite (of_int v)))"
proof -
  have a: "read_float 4 False (BytesIO [0x00, 0x00, 0x80, 0x3F]) =
        (Inr (Finite 1065353216), \<lparr>buf = [0x00, 0x00, 0x80, 0x3F], pos = 4\<rparr>)"
    by (simp add: read_float_4 BytesIO_def remaining_def advance_def)
  have b: "read_float2 4 (BytesIO [0x00, 0x00, 0x80, 0x3F]) =
        (Inr (Finite 1), \<lparr>buf = [0x00, 0x00, 0x80, 0x3F], pos = 4\<rparr>)"
    by (simp add: read_float2_enough BytesIO_def binary32_value_def)
  have c: "read_float 4 False \<noteq> read_float2 4"
  proof
    assume "read_float 4 False = read_float2 4"
    then have "read_float 4 False (BytesIO [0x00, 0x00, 0x80, 0x3F]) =
               read_float2 4 (BytesIO [0x00, 0x00, 0x80, 0x3F])" by simp
    then show False unfolding a b by simp
  qed
  have d: "4 \<le> length (remaining f) \<longrightarrow>
        read_float2 4 f = (Inr (binary32_value (le_uint (take 4 (remaining f)))), advance 4 f)"
    using read_float2_enough [of f] by (simp add: remaining_def advance_def min_def)
  have t: "63 \<le> length (remaining (data self)) \<longrightarrow>
        (\<exists>ev. TelemetryEvent_post_init self = Inr ev
           \<and> pos_x ev = binary32_value (le_uint (take 4 (drop 39 (remaining (data self)))))
           \<and> pos_y ev = binary32_value (le_uint (take 4 (drop 43 (remaining (data self)))))
           \<and> pos_z ev = binary32_value (le_uint (take 4 (drop 47 (remaining (data self)))))
           \<and> rot_x ev = binary32_value (le_uint (take 4 (drop 51 (remaining (data self)))))
           \<and> rot_y ev = binary32_value (le_uint (take 4 (drop 55 (remaining (data self)))))
           \<and> rot_z ev = binary32_value (le_uint (take 4 (drop 59 (remaining (data self))))))"
    using telemetry_fields [of self] by (auto simp: Let_def)
  have dr: "read_driver f = (Inr d, g) \<longrightarrow>
        buf g = buf f
        \<and> (\<exists>h. buf h = buf f \<and> g = advance 8 h
             \<and> time_enter d = Finite (of_int (le_uint (take 4 (remaining h))))
             \<and> time_exit d = Finite (of_int (le_uint (take 4 (drop 4 (remaining h))))))
        \<and> (pos g < length (buf f) \<longrightarrow>
             time_enter d = Finite (of_int (le_uint (take 4 (drop (pos g - 8) (buf f)))))
             \<and> time_exit d = Finite (of_int (le_uint (take 4 (drop (pos g - 4) (buf f))))))"
    using read_driver_buf [of f d g] read_driver_times [of f d g] read_driver_times_at [of f d g]
    by blast
  have sl: "ev \<in> set (fst (slice_loop k t f)) \<longrightarrow> time (base ev) = t"
    using slice_loop_time [of ev k t f] by blast
  have ev: "ev \<in> set (fst (fst (events replay))) \<longrightarrow>
        (\<exists>v. 0 \<le> v \<and> v < 2 ^ 32 \<and> time (base ev) = Finite (of_int v))"
  proof
    assume "ev \<in> set (fst (fst (events replay)))"
    then have "ev \<in> set (fst (events_loop (nat (slice_count (info replay))) (vcr_file replay)))"
      by (simp add: events_def split: prod.splits)
    then show "\<exists>v. 0 \<le> v \<and> v < 2 ^ 32 \<and> time (base ev) = Finite (of_int v)"
      by (rule events_loop_time)
  qed
  note first = read_float_4 [of f] binary32_normal [of w] garage_timestamp [of self]
    checkpoint_times [of self]
  from a b c d t first
  have 1: "read_float 4 False f =
     (Inr (Finite (of_int (le_uint (take 4 (remaining f))))), advance 4 f)
   \<and> (4 \<le> length (remaining f) \<longrightarrow>
        read_float2 4 f = (Inr (binary32_value (le_uint (take 4 (remaining f)))), advance 4 f))
   \<and> (0 < take_bit 8 (drop_bit 23 w) \<longrightarrow> take_bit 8 (drop_bit 23 w) < 255 \<longrightarrow>
        binary32_value w =
          Finite ((if bit w 31 then - 1 else 1)
                  * (1 + of_int (take_bit 23 w) / 2 ^ 23)
                  * 2 powi (take_bit 8 (drop_bit 23 w) - 127)))
   \<and> read_float 4 False (BytesIO [0x00, 0x00, 0x80, 0x3F]) =
        (Inr (Finite 1065353216), \<lparr>buf = [0x00, 0x00, 0x80, 0x3F], pos = 4\<rparr>)
   \<and> read_float2 4 (BytesIO [0x00, 0x00, 0x80, 0x3F]) =
        (Inr (Finite 1), \<lparr>buf = [0x00, 0x00, 0x80, 0x3F], pos = 4\<rparr>)
   \<and> read_float 4 False \<noteq> read_float2 4
   \<and> (\<exists>ev. GarageEvent_post_init self = Inr ev
        \<and> timestamp ev = Finite (of_int (le_uint (take 4 (remaining (data self))))))
   \<and> (\<exists>ev. CheckpointEvent_post_init self = Inr ev
        \<and> lap_or_sector_time ev = Finite (of_int (le_uint (take 4 (remaining (data self)))))
        \<and> cp_timestamp ev = Finite (of_int (le_uint (take 4 (drop 4 (remaining (data self)))))))
   \<and> (63 \<le> length (remaining (data self)) \<longrightarrow>
        (\<exists>ev. TelemetryEvent_post_init self = Inr ev
           \<and> pos_x ev = binary32_value (le_uint (take 4 (drop 39 (remaining (data self)))))
           \<and> pos_y ev = binary32_value (le_uint (take 4 (drop 43 (remaining (data self)))))
           \<and> pos_z ev = binary32_value (le_uint (take 4 (drop 47 (remaining (data self)))))
           \<and> rot_x ev = binary32_value (le_uint (take 4 (drop 51 (remaining (data self)))))
           \<and> rot_y ev = binary32_value (le_uint (take 4 (drop 55 (remaining (data self)))))
           \<and> rot_z ev = binary32_value (le_uint (take 4 (drop 59 (remaining (data self)))))))"
    by simp
  from 1 read_slices_header_eq [of info0 f] dr events_loop_Suc [of k f] sl ev
  show ?thesis by (intro conjI) (elim conjE, assumption)+
qed

theorem two_float_readers_witness:
  "63 \<le> length (remaining (data telemetry_self))
   \<and> (\<exists>ev. TelemetryEvent_post_init telemetry_self = Inr ev \<and> pos_x ev = Finite 1)
   \<and> binary32_value 0x3F800000 = Finite 1
   \<and> read_float2 4 (BytesIO [0xDB, 0x0F, 0x49, 0xC0]) =
       (Inr (Finite (- (13176795 / 4194304))), \<lparr>buf = [0xDB, 0x0F, 0x49, 0xC0], pos = 4\<rparr>)
   \<and> read_driver (BytesIO sample_driver_bytes) =
       (Inr sample_driver, \<lparr>buf = sample_driver_bytes, pos = 98\<rparr>)
   \<and> take 8 (drop 90 sample_driver_bytes) = [0x10, 0x00, 0x00, 0x00, 0x00, 0x01, 0x00, 0x00]
   \<and> time_enter sample_driver = Finite 16 \<and> time_exit sample_driver = Finite 256
   \<and> Unknown sample_unknown \<in> set (fst (slice_loop 1 (Finite 5) unknown_stream))
   \<and> time (base (Unknown sample_unknown)) = Finite 5
   \<and> Telemetry sample_telemetry \<in> set (fst (fst (events sample_replay)))
   \<and> time (base (Telemetry sample_telemetry)) = Finite 6"
proof -
  have h: "63 \<le> length (remaining (data telemetry_self))"
    by (simp add: telemetry_self_def telemetry_payload_def BytesIO_def remaining_def)
  have l: "4 \<le> length (remaining (BytesIO [0xDB, 0x0F, 0x49, 0xC0]))"
    by (simp add: BytesIO_def remaining_def)
  have e: "take_bit 8 (drop_bit 23 (0x3F800000::int)) = 127" by simp
  have e2: "take_bit 23 (0x3F800000::int) = 0" by simp
  note inst = two_float_readers [where self = telemetry_self and w = "0x3F800000"
      and f = "BytesIO [0xDB, 0x0F, 0x49, 0xC0]"]
  from inst l
  have r: "read_float2 4 (BytesIO [0xDB, 0x0F, 0x49, 0xC0]) =
       (Inr (binary32_value (le_uint (take 4 (remaining (BytesIO [0xDB, 0x0F, 0x49, 0xC0]))))),
        advance 4 (BytesIO [0xDB, 0x0F, 0x49, 0xC0]))"
    by blast
  from inst [THEN conjunct2, THEN conjunct2, THEN conjunct1]
  have "0 < take_bit 8 (drop_bit 23 (0x3F800000::int)) \<longrightarrow>
        take_bit 8 (drop_bit 23 (0x3F800000::int)) < 255 \<longrightarrow>
        binary32_value 0x3F800000 =
          Finite ((if bit (0x3F800000::int) 31 then - 1 else 1)
                  * (1 + of_int (take_bit 23 (0x3F800000::int)) / 2 ^ 23)
                  * 2 powi (take_bit 8 (drop_bit 23 (0x3F800000::int)) - 127))"
    .
  then have n: "binary32_value 0x3F800000 = Finite 1"
    unfolding e e2 by (simp add: bit_simps)
  from inst h obtain ev where
    "TelemetryEvent_post_init telemetry_self = Inr ev"
    "pos_x ev = binary32_value (le_uint (take 4 (drop 39 (remaining (data telemetry_self)))))"
    by blast
  then have x: "\<exists>ev. TelemetryEvent_post_init telemetry_self = Inr ev \<and> pos_x ev = Finite 1"
    by (auto simp: telemetry_self_def telemetry_payload_def BytesIO_def remaining_def
        binary32_value_def)
  from r n x
  have 1: "(\<exists>ev. TelemetryEvent_post_init telemetry_self = Inr ev \<and> pos_x ev = Finite 1)
   \<and> binary32_value 0x3F800000 = Finite 1
   \<and> read_float2 4 (BytesIO [0xDB, 0x0F, 0x49, 0xC0]) =
       (Inr (Finite (- (13176795 / 4194304))), \<lparr>buf = [0xDB, 0x0F, 0x49, 0xC0], pos = 4\<rparr>)"
    by (simp add: BytesIO_def remaining_def advance_def binary32_value_def)
  have p: "pos \<lparr>buf = sample_driver_bytes, pos = 98\<rparr> < length (buf (BytesIO sample_driver_bytes))"
    by (simp add: BytesIO_def sample_driver_bytes_def)
  have b: "take 8 (drop 90 sample_driver_bytes) = [0x10, 0x00, 0x00, 0x00, 0x00, 0x01, 0x00, 0x00]"
    by (simp add: sample_driver_bytes_def)
  from two_float_readers [where f = "BytesIO sample_driver_bytes" and d = sample_driver
      and g = "\<lparr>buf = sample_driver_bytes, pos = 98\<rparr>"] sample_driver_read p
  have 2: "time_enter sample_driver = Finite 16 \<and> time_exit sample_driver = Finite 256"
    by (simp add: BytesIO_def sample_driver_bytes_def)
  have s: "Unknown sample_unknown \<in> set (fst (slice_loop 1 (Finite 5) unknown_stream))"
    by (simp add: read_event_eq unknown_stream_def BytesIO_def remaining_def unpack_header_def
        EVENT_TYPES_get_def EVENT_TYPES_def sample_unknown_def)
  from two_float_readers [where ev = "Unknown sample_unknown" and k = 1 and t = "Finite 5"
      and f = unknown_stream] s
  have 3: "time (base (Unknown sample_unknown)) = Finite 5" by blast
  have m: "Telemetry sample_telemetry \<in> set (fst (fst (events sample_replay)))"
    by (simp add: sample_events)
  from two_float_readers [where ev = "Telemetry sample_telemetry" and replay = sample_replay] m
  have "\<exists>v. 0 \<le> v \<and> v < 2 ^ 32 \<and> time (base (Telemetry sample_telemetry)) = Finite (of_int v)"
    by blast
  moreover have 4: "time (base (Telemetry sample_telemetry)) = Finite 6"
    by (simp add: sample_telemetry_def ReplayEvent.truncate_def)
  ultimately show ?thesis using h 1 sample_driver_read b 2 s 3 m by simp
qed

end
